theory Spec2Isabelle
  imports Complex_Main
begin

section \<open>Scalars: C++ double with its special values\<close>

text \<open>
  The odometer computes with \<^verbatim>\<open>double\<close> (\<^verbatim>\<open>tfScalar\<close>). A value is a number, one of
  the two infinities, or NaN. The special values follow IEEE 754: NaN is absorbing, NaN
  compares false with everything, \<open>0 * Inf\<close> and \<open>Inf - Inf\<close> are NaN. Numbers are exact
  reals: rounding and overflow of finite results are left out, and zero stands for \<open>+0\<close>.
  The general statements below are about which operations are applied to which values.
  The examples either use operations that are exact in binary floating point or end in
  an inequality with a wide margin.
\<close>

datatype dbl = Num real | PInf | NInf | NaN

fun isnan :: "dbl \<Rightarrow> bool" where
  "isnan NaN = True"
| "isnan _ = False"

fun isfinite :: "dbl \<Rightarrow> bool" where
  "isfinite (Num _) = True"
| "isfinite _ = False"

fun dneg :: "dbl \<Rightarrow> dbl" where
  "dneg (Num a) = Num (- a)"
| "dneg PInf = NInf"
| "dneg NInf = PInf"
| "dneg NaN = NaN"

fun dadd :: "dbl \<Rightarrow> dbl \<Rightarrow> dbl" where
  "dadd (Num a) (Num b) = Num (a + b)"
| "dadd (Num a) PInf = PInf"
| "dadd (Num a) NInf = NInf"
| "dadd PInf (Num b) = PInf"
| "dadd NInf (Num b) = NInf"
| "dadd PInf PInf = PInf"
| "dadd NInf NInf = NInf"
| "dadd PInf NInf = NaN"
| "dadd NInf PInf = NaN"
| "dadd NaN _ = NaN"
| "dadd _ NaN = NaN"

definition dsub :: "dbl \<Rightarrow> dbl \<Rightarrow> dbl" where
  "dsub a b = dadd a (dneg b)"

definition signed_inf :: "bool \<Rightarrow> dbl" where
  "signed_inf positive = (if positive then PInf else NInf)"

fun dmul :: "dbl \<Rightarrow> dbl \<Rightarrow> dbl" where
  "dmul (Num a) (Num b) = Num (a * b)"
| "dmul (Num a) PInf = (if a = 0 then NaN else signed_inf (0 < a))"
| "dmul (Num a) NInf = (if a = 0 then NaN else signed_inf (a < 0))"
| "dmul PInf (Num b) = (if b = 0 then NaN else signed_inf (0 < b))"
| "dmul NInf (Num b) = (if b = 0 then NaN else signed_inf (b < 0))"
| "dmul PInf PInf = PInf"
| "dmul NInf NInf = PInf"
| "dmul PInf NInf = NInf"
| "dmul NInf PInf = NInf"
| "dmul NaN _ = NaN"
| "dmul _ NaN = NaN"

fun ddiv :: "dbl \<Rightarrow> dbl \<Rightarrow> dbl" where
  "ddiv (Num a) (Num b) =
     (if b = 0 then (if a = 0 then NaN else signed_inf (0 < a)) else Num (a / b))"
| "ddiv (Num a) PInf = Num 0"
| "ddiv (Num a) NInf = Num 0"
| "ddiv PInf (Num b) = signed_inf (0 \<le> b)"
| "ddiv NInf (Num b) = signed_inf (b < 0)"
| "ddiv PInf PInf = NaN"
| "ddiv NInf NInf = NaN"
| "ddiv PInf NInf = NaN"
| "ddiv NInf PInf = NaN"
| "ddiv NaN _ = NaN"
| "ddiv _ NaN = NaN"

fun dsqrt :: "dbl \<Rightarrow> dbl" where
  "dsqrt (Num a) = (if a < 0 then NaN else Num (sqrt a))"
| "dsqrt PInf = PInf"
| "dsqrt NInf = NaN"
| "dsqrt NaN = NaN"

fun dabs :: "dbl \<Rightarrow> dbl" where
  "dabs (Num a) = Num \<bar>a\<bar>"
| "dabs PInf = PInf"
| "dabs NInf = PInf"
| "dabs NaN = NaN"

fun dless :: "dbl \<Rightarrow> dbl \<Rightarrow> bool" where
  "dless (Num a) (Num b) = (a < b)"
| "dless (Num a) PInf = True"
| "dless NInf (Num b) = True"
| "dless NInf PInf = True"
| "dless _ _ = False"

definition dgreater :: "dbl \<Rightarrow> dbl \<Rightarrow> bool" where
  "dgreater a b = dless b a"

fun deq :: "dbl \<Rightarrow> dbl \<Rightarrow> bool" where
  "deq (Num a) (Num b) = (a = b)"
| "deq PInf PInf = True"
| "deq NInf NInf = True"
| "deq _ _ = False"

text \<open>
  \<^verbatim>\<open>tfAcos\<close> of tf's Scalar.h clamps its argument into \<open>[-1, 1]\<close> before calling
  \<^verbatim>\<open>acos\<close>; a NaN passes both comparisons and stays NaN.
\<close>

fun tfAcos :: "dbl \<Rightarrow> dbl" where
  "tfAcos (Num a) = Num (arccos (if a < - 1 then - 1 else if 1 < a then 1 else a))"
| "tfAcos PInf = Num (arccos 1)"
| "tfAcos NInf = Num (arccos (- 1))"
| "tfAcos NaN = NaN"

section \<open>The tf linear algebra the odometer calls\<close>

text \<open>
  \<^verbatim>\<open>tf::Vector3\<close>, \<^verbatim>\<open>tf::Quaternion\<close>, \<^verbatim>\<open>tf::Matrix3x3\<close> and \<^verbatim>\<open>tf::Transform\<close> with the
  member functions that \<^verbatim>\<open>process\<close> reaches, operation by operation as tf's LinearMath
  headers compute them. A transform stores a rotation matrix (its basis) and an origin.
\<close>

datatype Vector3 = Vector3 (getX: dbl) (getY: dbl) (getZ: dbl)

datatype Quaternion = Quaternion (qx: dbl) (qy: dbl) (qz: dbl) (qw: dbl)

datatype Matrix3x3 = Matrix3x3 (row0: Vector3) (row1: Vector3) (row2: Vector3)

datatype Transform = Transform (getBasis: Matrix3x3) (getOrigin: Vector3)

definition dot :: "Vector3 \<Rightarrow> Vector3 \<Rightarrow> dbl" where
  "dot a b = dadd (dadd (dmul (getX a) (getX b)) (dmul (getY a) (getY b)))
                  (dmul (getZ a) (getZ b))"

definition vec_scale :: "Vector3 \<Rightarrow> dbl \<Rightarrow> Vector3" where
  \<comment> \<open>\<^verbatim>\<open>operator*(const Vector3&, const tfScalar&)\<close>\<close>
  "vec_scale v s = Vector3 (dmul (getX v) s) (dmul (getY v) s) (dmul (getZ v) s)"

definition vec_div :: "Vector3 \<Rightarrow> dbl \<Rightarrow> Vector3" where
  \<comment> \<open>\<^verbatim>\<open>operator/(const Vector3&, const tfScalar&)\<close> multiplies by the reciprocal\<close>
  "vec_div v s = vec_scale v (ddiv (Num 1) s)"

definition vec_neg :: "Vector3 \<Rightarrow> Vector3" where
  "vec_neg v = Vector3 (dneg (getX v)) (dneg (getY v)) (dneg (getZ v))"

definition zero_vector :: Vector3 where
  "zero_vector = Vector3 (Num 0) (Num 0) (Num 0)"

definition tdotx :: "Matrix3x3 \<Rightarrow> Vector3 \<Rightarrow> dbl" where
  "tdotx m v = dadd (dadd (dmul (getX (row0 m)) (getX v)) (dmul (getX (row1 m)) (getY v)))
                    (dmul (getX (row2 m)) (getZ v))"

definition tdoty :: "Matrix3x3 \<Rightarrow> Vector3 \<Rightarrow> dbl" where
  "tdoty m v = dadd (dadd (dmul (getY (row0 m)) (getX v)) (dmul (getY (row1 m)) (getY v)))
                    (dmul (getY (row2 m)) (getZ v))"

definition tdotz :: "Matrix3x3 \<Rightarrow> Vector3 \<Rightarrow> dbl" where
  "tdotz m v = dadd (dadd (dmul (getZ (row0 m)) (getX v)) (dmul (getZ (row1 m)) (getY v)))
                    (dmul (getZ (row2 m)) (getZ v))"

definition mat_mul :: "Matrix3x3 \<Rightarrow> Matrix3x3 \<Rightarrow> Matrix3x3" where
  "mat_mul m1 m2 = Matrix3x3
     (Vector3 (tdotx m2 (row0 m1)) (tdoty m2 (row0 m1)) (tdotz m2 (row0 m1)))
     (Vector3 (tdotx m2 (row1 m1)) (tdoty m2 (row1 m1)) (tdotz m2 (row1 m1)))
     (Vector3 (tdotx m2 (row2 m1)) (tdoty m2 (row2 m1)) (tdotz m2 (row2 m1)))"

definition mat_vec :: "Matrix3x3 \<Rightarrow> Vector3 \<Rightarrow> Vector3" where
  "mat_vec m v = Vector3 (dot (row0 m) v) (dot (row1 m) v) (dot (row2 m) v)"

definition transpose_m :: "Matrix3x3 \<Rightarrow> Matrix3x3" where
  "transpose_m m = Matrix3x3
     (Vector3 (getX (row0 m)) (getX (row1 m)) (getX (row2 m)))
     (Vector3 (getY (row0 m)) (getY (row1 m)) (getY (row2 m)))
     (Vector3 (getZ (row0 m)) (getZ (row1 m)) (getZ (row2 m)))"

definition identity_m :: Matrix3x3 where
  "identity_m = Matrix3x3 (Vector3 (Num 1) (Num 0) (Num 0))
                          (Vector3 (Num 0) (Num 1) (Num 0))
                          (Vector3 (Num 0) (Num 0) (Num 1))"

definition nan_matrix :: Matrix3x3 where
  \<comment> \<open>the matrix whose nine entries are NaN\<close>
  "nan_matrix = Matrix3x3 (Vector3 NaN NaN NaN) (Vector3 NaN NaN NaN) (Vector3 NaN NaN NaN)"

definition length2 :: "Quaternion \<Rightarrow> dbl" where
  "length2 q = dadd (dadd (dadd (dmul (qx q) (qx q)) (dmul (qy q) (qy q)))
                          (dmul (qz q) (qz q))) (dmul (qw q) (qw q))"

definition setRotation :: "Quaternion \<Rightarrow> Matrix3x3" where
  \<comment> \<open>\<^verbatim>\<open>Matrix3x3::setRotation\<close>, the matrix of \<^verbatim>\<open>Transform(q, c)\<close>\<close>
  "setRotation q =
     (let d = length2 q;
          s = ddiv (Num 2) d;
          xs = dmul (qx q) s; ys = dmul (qy q) s; zs = dmul (qz q) s;
          wx = dmul (qw q) xs; wy = dmul (qw q) ys; wz = dmul (qw q) zs;
          xx = dmul (qx q) xs; xy = dmul (qx q) ys; xz = dmul (qx q) zs;
          yy = dmul (qy q) ys; yz = dmul (qy q) zs; zz = dmul (qz q) zs
      in Matrix3x3
           (Vector3 (dsub (Num 1) (dadd yy zz)) (dsub xy wz) (dadd xz wy))
           (Vector3 (dadd xy wz) (dsub (Num 1) (dadd xx zz)) (dsub yz wx))
           (Vector3 (dsub xz wy) (dadd yz wx) (dsub (Num 1) (dadd xx yy))))"

definition m_el :: "Matrix3x3 \<Rightarrow> nat \<Rightarrow> nat \<Rightarrow> dbl" where
  \<comment> \<open>\<^verbatim>\<open>m_el[i][j]\<close> for \<open>i, j < 3\<close>\<close>
  "m_el m i j =
     (let r = (if i = 0 then row0 m else if i = 1 then row1 m else row2 m)
      in if j = 0 then getX r else if j = 1 then getY r else getZ r)"

definition getRotation_m :: "Matrix3x3 \<Rightarrow> Quaternion" where
  \<comment> \<open>\<^verbatim>\<open>Matrix3x3::getRotation\<close>\<close>
  "getRotation_m m =
     (let trace = dadd (dadd (m_el m 0 0) (m_el m 1 1)) (m_el m 2 2)
      in if dgreater trace (Num 0) then
           (let s = dsqrt (dadd trace (Num 1));
                w = dmul s (Num (1/2));
                s' = ddiv (Num (1/2)) s
            in Quaternion (dmul (dsub (m_el m 2 1) (m_el m 1 2)) s')
                          (dmul (dsub (m_el m 0 2) (m_el m 2 0)) s')
                          (dmul (dsub (m_el m 1 0) (m_el m 0 1)) s')
                          w)
         else
           (let i = (if dless (m_el m 0 0) (m_el m 1 1)
                     then (if dless (m_el m 1 1) (m_el m 2 2) then 2 else 1)
                     else (if dless (m_el m 0 0) (m_el m 2 2) then 2 else 0));
                j = (i + 1) mod 3;
                k = (i + 2) mod 3;
                s = dsqrt (dadd (dsub (dsub (m_el m i i) (m_el m j j)) (m_el m k k)) (Num 1));
                s' = ddiv (Num (1/2)) s;
                temp = ((\<lambda>_. Num 0)
                          (i := dmul s (Num (1/2)),
                           3 := dmul (dsub (m_el m k j) (m_el m j k)) s',
                           j := dmul (dadd (m_el m j i) (m_el m i j)) s',
                           k := dmul (dadd (m_el m k i) (m_el m i k)) s'))
            in Quaternion (temp 0) (temp 1) (temp 2) (temp (3::nat))))"

definition tf_apply :: "Transform \<Rightarrow> Vector3 \<Rightarrow> Vector3" where
  \<comment> \<open>\<^verbatim>\<open>Transform::operator()(const Vector3&)\<close>\<close>
  "tf_apply t x = Vector3 (dadd (dot (row0 (getBasis t)) x) (getX (getOrigin t)))
                          (dadd (dot (row1 (getBasis t)) x) (getY (getOrigin t)))
                          (dadd (dot (row2 (getBasis t)) x) (getZ (getOrigin t)))"

definition tf_mul :: "Transform \<Rightarrow> Transform \<Rightarrow> Transform" where
  \<comment> \<open>\<^verbatim>\<open>Transform::operator*\<close>\<close>
  "tf_mul a b = Transform (mat_mul (getBasis a) (getBasis b)) (tf_apply a (getOrigin b))"

definition inverse_tf :: "Transform \<Rightarrow> Transform" where
  \<comment> \<open>\<^verbatim>\<open>Transform::inverse\<close>\<close>
  "inverse_tf t = (let inv = transpose_m (getBasis t)
                   in Transform inv (mat_vec inv (vec_neg (getOrigin t))))"

definition identity_tf :: Transform where
  \<comment> \<open>the value left by \<^verbatim>\<open>setIdentity\<close>\<close>
  "identity_tf = Transform identity_m zero_vector"

definition setOrigin :: "Transform \<Rightarrow> Vector3 \<Rightarrow> Transform" where
  "setOrigin t origin = Transform (getBasis t) origin"

definition getRotation :: "Transform \<Rightarrow> Quaternion" where
  "getRotation t = getRotation_m (getBasis t)"

definition getAngle :: "Quaternion \<Rightarrow> dbl" where
  \<comment> \<open>\<^verbatim>\<open>Quaternion::getAngle\<close>: \<open>2 * acos w\<close>\<close>
  "getAngle q = dmul (Num 2) (tfAcos (qw q))"

definition TFSIMD_EPSILON :: real where
  \<comment> \<open>\<^verbatim>\<open>DBL_EPSILON\<close>\<close>
  "TFSIMD_EPSILON = 1 / 2 ^ 52"

definition getAxis :: "Quaternion \<Rightarrow> Vector3" where
  \<comment> \<open>\<^verbatim>\<open>Quaternion::getAxis\<close>\<close>
  "getAxis q =
     (let s_squared = dsub (Num 1) (dmul (qw q) (qw q))
      in if dless s_squared (Num (10 * TFSIMD_EPSILON)) then Vector3 (Num 1) (Num 0) (Num 0)
         else (let s = dsqrt s_squared
               in Vector3 (ddiv (qx q) s) (ddiv (qy q) s) (ddiv (qz q) s)))"

definition normalize :: "Quaternion \<Rightarrow> Quaternion" where
  \<comment> \<open>\<^verbatim>\<open>Quaternion::normalize\<close>: multiply by \<open>1 / length\<close>\<close>
  "normalize q = (let r = ddiv (Num 1) (dsqrt (length2 q))
                  in Quaternion (dmul (qx q) r) (dmul (qy q) r) (dmul (qz q) r) (dmul (qw q) r))"

section \<open>Time, messages and the estimator's report\<close>

text \<open>
  A \<^verbatim>\<open>ros::Time\<close> and a \<^verbatim>\<open>ros::Duration\<close> are counts of nanoseconds; \<^verbatim>\<open>ros::Time()\<close> and
  \<^verbatim>\<open>ros::Time(0)\<close> are the zero time.
\<close>

type_synonym Time = int

definition isZero :: "Time \<Rightarrow> bool" where
  "isZero t = (t = 0)"

definition toSec_real :: "int \<Rightarrow> real" where
  "toSec_real d = real_of_int d / 10 ^ 9"

definition toSec :: "int \<Rightarrow> dbl" where
  "toSec d = Num (toSec_real d)"


datatype MotionEstimateStatusCode =
  NO_DATA | SUCCESS | INSUFFICIENT_INLIERS | OPTIMIZATION_FAILURE | REPROJECTION_ERROR

text \<open>
  An \<^verbatim>\<open>Eigen::Isometry3d\<close> as \<^verbatim>\<open>eigenToTF\<close> reads it: its translation and the quaternion
  \<^verbatim>\<open>Eigen::Quaterniond(pose.rotation())\<close>, which Eigen computes.
\<close>

datatype Isometry3d = Isometry3d (translation: Vector3) (rotation: Quaternion)

text \<open>
  One call of \<^verbatim>\<open>process\<close> sees the two message headers, the image layout, the number of
  subscribers of the feature image, and what the estimator reports after
  \<^verbatim>\<open>processFrame\<close>. The estimator is the fovis library: its report is input here.
  \<^verbatim>\<open>VisualOdometry::getMotionEstimateStatus\<close> forwards to its motion estimator, so the
  status read for the branch and the one copied into the info message are one field.
\<close>

record Frame =
  img_stamp :: Time
  img_frame_id :: string
  img_width :: int
  img_step :: int
  cam_info_stamp :: Time
  cam_info_frame_id :: string
  feature_subscribers :: nat
  est_status :: MotionEstimateStatusCode
  est_pose :: Isometry3d
  est_motion :: Isometry3d
  est_motion_cov :: "nat \<Rightarrow> nat \<Rightarrow> dbl"
  est_change_reference_frames :: bool
  est_fast_threshold :: int
  est_total_detected_keypoints :: int
  est_total_keypoints :: int
  est_levels :: "(int \<times> int) list"
  est_num_matches :: int
  est_num_inliers :: int
  est_num_reprojection_failures :: int
  est_motion_estimate_valid :: bool

record Pose =
  position :: Vector3
  orientation :: Quaternion

definition default_Pose :: Pose where
  \<comment> \<open>a default-constructed \<^verbatim>\<open>geometry_msgs::Pose\<close>: every field zero\<close>
  "default_Pose = \<lparr>position = zero_vector,
                   orientation = Quaternion (Num 0) (Num 0) (Num 0) (Num 0)\<rparr>"

text \<open>The fields of \<^verbatim>\<open>nav_msgs::Odometry\<close> that \<^verbatim>\<open>process\<close> writes, and the twist
  covariance, a row-major array of 36 numbers. The pose covariance is never written.\<close>

record Odometry =
  odom_stamp :: Time
  odom_header_frame_id :: string
  odom_child_frame_id :: string
  odom_pose :: Pose
  twist_linear :: Vector3
  twist_angular :: Vector3
  twist_covariance :: "dbl list"

definition default_Odometry :: Odometry where
  "default_Odometry = \<lparr>odom_stamp = 0, odom_header_frame_id = [], odom_child_frame_id = [],
     odom_pose = default_Pose, twist_linear = zero_vector, twist_angular = zero_vector,
     twist_covariance = replicate 36 (Num 0)\<rparr>"

record PoseStamped =
  ps_stamp :: Time
  ps_frame_id :: string
  ps_pose :: Pose

text \<open>The info message without its wall-clock runtime and without the status string, which
  is the library's table entry for the status code.\<close>

record FovisInfo =
  info_stamp :: Time
  change_reference_frame :: bool
  fast_threshold :: int
  num_total_detected_keypoints :: int
  num_total_keypoints :: int
  num_detected_keypoints :: "int list"
  num_keypoints :: "int list"
  motion_estimate_status_code :: MotionEstimateStatusCode
  num_matches :: int
  num_inliers :: int
  num_reprojection_failures :: int
  motion_estimate_valid :: bool

text \<open>What a call sends out, in order: transform broadcasts (transform, stamp, parent
  frame, child frame), the three messages, the feature image, and log lines.\<close>

datatype Output =
    SendTransform Transform Time string string
  | OdomPub Odometry
  | PosePub PoseStamped
  | InfoPub FovisInfo
  | FeaturesPub Time string
  | RosError string
  | RosWarn string
  | RosWarnThrottle string string

section \<open>The odometer\<close>

text \<open>
  The members of \<^verbatim>\<open>OdometerBase\<close> that \<^verbatim>\<open>process\<close> and \<^verbatim>\<open>publishLastKnownTf\<close> read
  or write. \<open>visual_odometer\<close> and \<open>depth_source\<close> say whether the pointer is non-null.
  \<open>throttle_last_hit\<close> is the \<^verbatim>\<open>static double last_hit\<close> of the throttled warning.
\<close>

record OdometerBase =
  visual_odometer :: bool
  depth_source :: bool
  reset_odometer :: bool
  last_time :: Time
  last_published_tf_time :: Time
  base_transform :: Transform
  translation_correction_factor :: dbl
  odom_frame_id :: string
  base_link_frame_id :: string
  publish_tf :: bool
  initial_base_to_sensor :: Transform
  throttle_last_hit :: real

text \<open>Outside the object: the transform tree the listener holds (\<open>None\<close>: no transform
  between the two frames at that time; time zero asks for the latest) and the clock.\<close>

record Env =
  tf_listener :: "string \<Rightarrow> string \<Rightarrow> Time \<Rightarrow> Transform option"
  now :: Time

datatype error = AssertionFailed

record Params =
  param_odom_frame_id :: "string option"
  param_base_link_frame_id :: "string option"
  param_publish_tf :: "bool option"
  param_tf_factor :: "dbl option"

definition param :: "'a option \<Rightarrow> 'a \<Rightarrow> 'a" where
  \<comment> \<open>\<^verbatim>\<open>NodeHandle::param\<close>: the value set, or the default\<close>
  "param v d = (case v of Some x \<Rightarrow> x | None \<Rightarrow> d)"

definition loadParams :: "Params \<Rightarrow> OdometerBase \<Rightarrow> OdometerBase" where
  "loadParams ps s =
     (let factor = param (param_tf_factor ps) (Num 1)
      in s\<lparr>odom_frame_id := param (param_odom_frame_id ps) ''/odom'',
            base_link_frame_id := param (param_base_link_frame_id ps) ''/base_link'',
            publish_tf := param (param_publish_tf ps) True,
            translation_correction_factor :=
              (if deq factor (Num 0) then Num 1 else factor)\<rparr>)"


definition setDepthSource :: "OdometerBase \<Rightarrow> OdometerBase" where
  "setDepthSource s = s\<lparr>depth_source := True\<rparr>"

definition processReinitFovis :: "OdometerBase \<Rightarrow> OdometerBase" where
  "processReinitFovis s = (if visual_odometer s then s\<lparr>visual_odometer := False\<rparr> else s)"

definition canTransform :: "Env \<Rightarrow> string \<Rightarrow> string \<Rightarrow> Time \<Rightarrow> bool" where
  "canTransform env target source t = (tf_listener env target source t \<noteq> None)"

definition lookupTransform :: "Env \<Rightarrow> string \<Rightarrow> string \<Rightarrow> Time \<Rightarrow> Transform" where
  \<comment> \<open>called only where \<open>canTransform\<close> holds for the same arguments\<close>
  "lookupTransform env target source t = the (tf_listener env target source t)"

text \<open>
  Modelled from the spec: \<^verbatim>\<open>ROS_WARN_THROTTLE(period, ...)\<close> is a rosconsole macro. It
  keeps the time of its last print in a static and prints when \<open>last_hit + period \<le> now\<close>,
  which rate-limits the line to at most once per period.
\<close>

definition throttle_passes :: "real \<Rightarrow> real \<Rightarrow> Time \<Rightarrow> bool" where
  "throttle_passes last_hit period t = (last_hit + period \<le> toSec_real t)"

definition getBaseToSensorTransform ::
  "Env \<Rightarrow> Time \<Rightarrow> string \<Rightarrow> OdometerBase \<Rightarrow> Transform \<times> OdometerBase \<times> Output list" where
  "getBaseToSensorTransform env stamp sensor_frame_id s =
     (if canTransform env (base_link_frame_id s) sensor_frame_id 0
      then (lookupTransform env (base_link_frame_id s) sensor_frame_id 0, s, [])
      else if throttle_passes (throttle_last_hit s) 10 (now env)
      then (identity_tf, s\<lparr>throttle_last_hit := toSec_real (now env)\<rparr>,
            [RosWarnThrottle (base_link_frame_id s) sensor_frame_id])
      else (identity_tf, s, []))"

definition eigenToTF :: "Isometry3d \<Rightarrow> Transform" where
  "eigenToTF p = Transform (setRotation (rotation p)) (translation p)"

definition QUATERNION_TOLERANCE :: real where
  \<comment> \<open>\<^verbatim>\<open>0.1f\<close> widened to double\<close>
  "QUATERNION_TOLERANCE = 13421773 / 134217728"

definition quaternionTFToMsg :: "Quaternion \<Rightarrow> Quaternion" where
  "quaternionTFToMsg q =
     (if dgreater (dabs (dsub (length2 q) (Num 1))) (Num QUATERNION_TOLERANCE)
      then normalize q else q)"

definition poseTFToMsg :: "Transform \<Rightarrow> Pose" where
  "poseTFToMsg t = \<lparr>position = getOrigin t, orientation = quaternionTFToMsg (getRotation t)\<rparr>"

definition initOdometer :: "Env \<Rightarrow> Frame \<Rightarrow> OdometerBase \<Rightarrow> OdometerBase \<times> Output list" where
  "initOdometer env f s =
     (let s1 = s\<lparr>visual_odometer := True\<rparr>
      in if \<not> reset_odometer s1
         then (case getBaseToSensorTransform env (cam_info_stamp f) (cam_info_frame_id f) s1 of
                 (t, s2, out) \<Rightarrow> (s2\<lparr>initial_base_to_sensor := t\<rparr>, out))
         else (s1\<lparr>reset_odometer := False\<rparr>, []))"

definition has_nan :: "Transform \<Rightarrow> bool" where
  \<comment> \<open>the check for NaN in the fovis transform\<close>
  "has_nan sensor_pose =
     (let origin = getOrigin sensor_pose; q = getRotation sensor_pose
      in isnan (getX origin) \<or> isnan (getY origin) \<or> isnan (getZ origin)
         \<or> isnan (qx q) \<or> isnan (qy q) \<or> isnan (qz q) \<or> isnan (qw q))"

definition copy_covariance :: "(nat \<Rightarrow> nat \<Rightarrow> dbl) \<Rightarrow> dbl list \<Rightarrow> dbl list" where
  \<comment> \<open>the two nested loops: \<^verbatim>\<open>covariance[j*6+i] = motion_cov(i,j)\<close>\<close>
  "copy_covariance motion_cov cov =
     fold (\<lambda>i c. fold (\<lambda>j c'. c'[j * 6 + i := motion_cov i j]) [0..<6] c) [0..<6] cov"

definition delta_base_transform :: "Transform \<Rightarrow> Transform \<Rightarrow> Transform" where
  "delta_base_transform current_base_to_sensor sensor_motion =
     tf_mul (tf_mul current_base_to_sensor sensor_motion) (inverse_tf current_base_to_sensor)"

definition fill_twist :: "Transform \<Rightarrow> Frame \<Rightarrow> dbl \<Rightarrow> Odometry \<Rightarrow> Odometry" where
  \<comment> \<open>the body of \<^verbatim>\<open>if (dt > 0.0)\<close>\<close>
  "fill_twist current_base_to_sensor f dt odom_msg =
     (let delta = delta_base_transform current_base_to_sensor (eigenToTF (est_motion f));
          delta_rot = getRotation delta;
          angle = getAngle delta_rot;
          axis = getAxis delta_rot;
          angular_twist = vec_div (vec_scale axis angle) dt
      in odom_msg\<lparr>twist_linear := Vector3 (ddiv (getX (getOrigin delta)) dt)
                                         (ddiv (getY (getOrigin delta)) dt)
                                         (ddiv (getZ (getOrigin delta)) dt),
                   twist_angular := angular_twist,
                   twist_covariance :=
                     copy_covariance (est_motion_cov f) (twist_covariance odom_msg)\<rparr>)"

definition fovis_info :: "Frame \<Rightarrow> FovisInfo" where
  "fovis_info f =
     \<lparr>info_stamp = img_stamp f,
      change_reference_frame = est_change_reference_frames f,
      fast_threshold = est_fast_threshold f,
      num_total_detected_keypoints = est_total_detected_keypoints f,
      num_total_keypoints = est_total_keypoints f,
      num_detected_keypoints = map fst (est_levels f),
      num_keypoints = map snd (est_levels f),
      motion_estimate_status_code = est_status f,
      num_matches = est_num_matches f,
      num_inliers = est_num_inliers f,
      num_reprojection_failures = est_num_reprojection_failures f,
      motion_estimate_valid = est_motion_estimate_valid f\<rparr>"

definition integrate_pose :: "OdometerBase \<Rightarrow> Transform \<Rightarrow> Transform \<Rightarrow> Transform" where
  \<comment> \<open>the new \<^verbatim>\<open>base_transform_\<close>: the product, then its origin times the factor\<close>
  "integrate_pose s sensor_pose current_base_to_sensor =
     (let t = tf_mul (tf_mul (initial_base_to_sensor s) sensor_pose)
                     (inverse_tf current_base_to_sensor)
      in setOrigin t (vec_scale (getOrigin t) (translation_correction_factor s)))"

definition ensure_odometer ::
  "Env \<Rightarrow> Frame \<Rightarrow> OdometerBase \<Rightarrow> bool \<times> OdometerBase \<times> Output list" where
  \<comment> \<open>the first lines of \<^verbatim>\<open>process\<close>: \<open>first_run\<close>, and the odometer created if null\<close>
  "ensure_odometer env f s =
     (if \<not> visual_odometer s
      then (case initOdometer env f s of (s1, out) \<Rightarrow> (True, s1, out))
      else (False, s, []))"

definition on_success ::
  "Env \<Rightarrow> Frame \<Rightarrow> OdometerBase \<Rightarrow> Odometry \<Rightarrow> PoseStamped \<Rightarrow> OdometerBase \<times> Output list" where
  \<comment> \<open>the branch \<^verbatim>\<open>status == fovis::SUCCESS\<close> and the publishing after it\<close>
  "on_success env f s1 odom_msg pose_msg =
     (let sensor_pose = eigenToTF (est_pose f)
      in case getBaseToSensorTransform env (img_stamp f) (img_frame_id f) s1 of
           (current_base_to_sensor, s2, out) \<Rightarrow>
             if has_nan sensor_pose
             then (s2\<lparr>initial_base_to_sensor :=
                         tf_mul (base_transform s2) current_base_to_sensor,
                       visual_odometer := False,
                       reset_odometer := True\<rparr>,
                   out @ [RosError ''NaN value in fovis tf... Resetting odometer''])
             else
               (let bt = integrate_pose s2 sensor_pose current_base_to_sensor;
                    tf_out = (if publish_tf s2
                              then [SendTransform bt (img_stamp f)
                                      (odom_frame_id s2) (base_link_frame_id s2)]
                              else []);
                    odom1 = odom_msg\<lparr>odom_pose := poseTFToMsg bt\<rparr>;
                    pose1 = pose_msg\<lparr>ps_pose := odom_pose odom1\<rparr>;
                    dt = (if isZero (last_time s2) then Num 0
                          else toSec (img_stamp f - last_time s2));
                    odom2 = (if dgreater dt (Num 0)
                             then fill_twist current_base_to_sensor f dt odom1 else odom1)
                in (s2\<lparr>base_transform := bt,
                        last_time := img_stamp f,
                        last_published_tf_time := img_stamp f\<rparr>,
                    out @ tf_out @ [OdomPub odom2, PosePub pose1, InfoPub (fovis_info f)])))"

definition features_out :: "bool \<Rightarrow> Frame \<Rightarrow> Output list" where
  \<comment> \<open>the feature image is skipped on the first run and without subscribers\<close>
  "features_out first_run f =
     (if \<not> first_run \<and> 0 < feature_subscribers f
      then [FeaturesPub (img_stamp f) (img_frame_id f)] else [])"

definition new_odom_msg :: "Frame \<Rightarrow> OdometerBase \<Rightarrow> Odometry" where
  "new_odom_msg f s = default_Odometry\<lparr>odom_stamp := img_stamp f,
                        odom_header_frame_id := odom_frame_id s,
                        odom_child_frame_id := base_link_frame_id s\<rparr>"

definition new_pose_msg :: "Frame \<Rightarrow> OdometerBase \<Rightarrow> PoseStamped" where
  "new_pose_msg f s = \<lparr>ps_stamp = img_stamp f, ps_frame_id = base_link_frame_id s,
                       ps_pose = default_Pose\<rparr>"

definition process :: "Env \<Rightarrow> Frame \<Rightarrow> OdometerBase \<Rightarrow> error + OdometerBase \<times> Output list" where
  \<comment> \<open>\<open>Inl AssertionFailed\<close>: one of the two \<^verbatim>\<open>ROS_ASSERT\<close>s on input fails\<close>
  "process env f s =
     (case ensure_odometer env f s of
        (first_run, s1, out0) \<Rightarrow>
          if \<not> depth_source s1 \<or> img_step f \<noteq> img_width f then Inl AssertionFailed
          else if est_status f = SUCCESS
          then (case on_success env f s1 (new_odom_msg f s1) (new_pose_msg f s1) of
                  (s', out) \<Rightarrow> Inr (s', out0 @ features_out first_run f @ out))
          else Inr (s1\<lparr>last_time := 0\<rparr>,
                    out0 @ features_out first_run f @
                    [RosWarn ''fovis odometry failed'',
                     OdomPub (new_odom_msg f s1), PosePub (new_pose_msg f s1),
                     InfoPub (fovis_info f)]))"


section \<open>Reading what a call published\<close>

definition outputs :: "error + OdometerBase \<times> Output list \<Rightarrow> Output list" where
  "outputs r = (case r of Inr (s, out) \<Rightarrow> out | Inl e \<Rightarrow> [])"

definition tf_broadcasts :: "Output list \<Rightarrow> (Transform \<times> Time) list" where
  "tf_broadcasts out =
     concat (map (\<lambda>x. case x of SendTransform t st a b \<Rightarrow> [(t, st)] | _ \<Rightarrow> []) out)"

definition odom_msgs :: "Output list \<Rightarrow> Odometry list" where
  "odom_msgs out = concat (map (\<lambda>x. case x of OdomPub m \<Rightarrow> [m] | _ \<Rightarrow> []) out)"

definition pose_msgs :: "Output list \<Rightarrow> PoseStamped list" where
  "pose_msgs out = concat (map (\<lambda>x. case x of PosePub m \<Rightarrow> [m] | _ \<Rightarrow> []) out)"

definition info_msgs :: "Output list \<Rightarrow> FovisInfo list" where
  "info_msgs out = concat (map (\<lambda>x. case x of InfoPub m \<Rightarrow> [m] | _ \<Rightarrow> []) out)"

definition throttled_warnings :: "Output list \<Rightarrow> (string \<times> string) list" where
  "throttled_warnings out =
     concat (map (\<lambda>x. case x of RosWarnThrottle a b \<Rightarrow> [(a, b)] | _ \<Rightarrow> []) out)"

definition published_poses :: "Output list \<Rightarrow> Pose list" where
  \<comment> \<open>the body-frame pose in every odometry message, pose message and broadcast\<close>
  "published_poses out =
     map (\<lambda>b. poseTFToMsg (fst b)) (tf_broadcasts out)
     @ map odom_pose (odom_msgs out) @ map ps_pose (pose_msgs out)"

definition pose_finite :: "Pose \<Rightarrow> bool" where
  "pose_finite p =
     (isfinite (getX (position p)) \<and> isfinite (getY (position p))
      \<and> isfinite (getZ (position p))
      \<and> isfinite (qx (orientation p)) \<and> isfinite (qy (orientation p))
      \<and> isfinite (qz (orientation p)) \<and> isfinite (qw (orientation p)))"

definition cov_entry :: "dbl list \<Rightarrow> nat \<Rightarrow> nat \<Rightarrow> dbl" where
  \<comment> \<open>row \<open>r\<close>, column \<open>c\<close> of a message covariance, which is stored row-major\<close>
  "cov_entry cov r c = cov ! (r * 6 + c)"

fun warn_times :: "(Env \<times> Time \<times> string) list \<Rightarrow> OdometerBase \<Rightarrow> Time list" where
  \<comment> \<open>the clock readings at which a run of lookups prints the throttled warning\<close>
  "warn_times [] s = []"
| "warn_times ((env, stamp, fid) # calls) s =
     (case getBaseToSensorTransform env stamp fid s of
        (t, s', out) \<Rightarrow>
          (if throttled_warnings out = [] then [] else [now env]) @ warn_times calls s')"

fun spaced :: "int \<Rightarrow> Time list \<Rightarrow> bool" where
  \<comment> \<open>successive times are at least \<open>gap\<close> nanoseconds apart\<close>
  "spaced gap (a # b # ts) = (a + gap \<le> b \<and> spaced gap (b # ts))"
| "spaced gap _ = True"

definition state_after :: "error + OdometerBase \<times> Output list \<Rightarrow> OdometerBase option" where
  "state_after r = (case r of Inr (s, out) \<Rightarrow> Some s | Inl e \<Rightarrow> None)"

fun process_all :: "Env \<Rightarrow> Frame list \<Rightarrow> OdometerBase \<Rightarrow> Output list list" where
  \<comment> \<open>\<^verbatim>\<open>process\<close> called on one frame after the other: what each call sent out, up to a
      failed assertion\<close>
  "process_all env [] s = []"
| "process_all env (f # fs) s =
     (case process env f s of
        Inl e \<Rightarrow> []
      | Inr (s', out) \<Rightarrow> out # process_all env fs s')"

section \<open>Example inputs\<close>

definition identity_q :: Quaternion where
  "identity_q = Quaternion (Num 0) (Num 0) (Num 0) (Num 1)"

definition translation_x :: "dbl \<Rightarrow> Isometry3d" where
  "translation_x x = Isometry3d (Vector3 x (Num 0) (Num 0)) identity_q"

definition identity_env :: Env where
  \<comment> \<open>every offset is known and is the identity; the clock reads 100 s\<close>
  "identity_env = \<lparr>tf_listener = (\<lambda>a b t. Some identity_tf), now = 100 * 10 ^ 9\<rparr>"

definition empty_env :: "Time \<Rightarrow> Env" where
  \<comment> \<open>no transform is known\<close>
  "empty_env t = \<lparr>tf_listener = (\<lambda>a b t. None), now = t\<rparr>"

definition latest_only_env :: Env where
  \<comment> \<open>the identity is the latest offset, and no offset is known at any given time\<close>
  "latest_only_env =
     \<lparr>tf_listener = (\<lambda>a b t. if t = 0 then Some identity_tf else None), now = 100 * 10 ^ 9\<rparr>"

definition no_params :: Params where
  "no_params = \<lparr>param_odom_frame_id = None, param_base_link_frame_id = None,
                param_publish_tf = None, param_tf_factor = None\<rparr>"

definition tracking :: "dbl \<Rightarrow> Time \<Rightarrow> OdometerBase" where
  \<comment> \<open>an odometer with default frame names that is tracking from the identity, with the
      given correction factor and time of the last success\<close>
  "tracking factor t =
     \<lparr>visual_odometer = True, depth_source = True, reset_odometer = False,
      last_time = t, last_published_tf_time = t, base_transform = identity_tf,
      translation_correction_factor = factor, odom_frame_id = ''/odom'',
      base_link_frame_id = ''/base_link'', publish_tf = True,
      initial_base_to_sensor = identity_tf, throttle_last_hit = 0\<rparr>"

definition example_cov :: "nat \<Rightarrow> nat \<Rightarrow> dbl" where
  \<comment> \<open>a matrix that is not symmetric: one in row 0, column 1, zero elsewhere\<close>
  "example_cov i j = (if i = 0 \<and> j = 1 then Num 1 else Num 0)"

definition frame :: "Time \<Rightarrow> MotionEstimateStatusCode \<Rightarrow> Isometry3d \<Rightarrow> Isometry3d \<Rightarrow> Frame" where
  "frame t st p m =
     \<lparr>img_stamp = t, img_frame_id = ''/camera'', img_width = 640, img_step = 640,
      cam_info_stamp = t, cam_info_frame_id = ''/camera'', feature_subscribers = 0,
      est_status = st, est_pose = p, est_motion = m, est_motion_cov = example_cov,
      est_change_reference_frames = False, est_fast_threshold = 10,
      est_total_detected_keypoints = 0, est_total_keypoints = 0, est_levels = [],
      est_num_matches = 0, est_num_inliers = 0, est_num_reprojection_failures = 0,
      est_motion_estimate_valid = (st = SUCCESS)\<rparr>"

definition wide_turn_x :: Isometry3d where
  \<comment> \<open>a rotation about X by about -135 degrees, as Eigen gives its quaternion: \<open>w = -5/13\<close>\<close>
  "wide_turn_x = Isometry3d zero_vector (Quaternion (Num (12/13)) (Num 0) (Num 0) (Num (- (5/13))))"

section \<open>How a call of process unfolds\<close>

lemmas projection_defs =
  tf_broadcasts_def odom_msgs_def pose_msgs_def info_msgs_def throttled_warnings_def

lemma lookup_keeps:
  assumes "getBaseToSensorTransform env stamp fid s = (t, s2, out)"
  shows "s2 = s\<lparr>throttle_last_hit := throttle_last_hit s2\<rparr>"
    and "tf_broadcasts out = []" and "odom_msgs out = []"
    and "pose_msgs out = []" and "info_msgs out = []"
  using assms
  by (auto simp: getBaseToSensorTransform_def projection_defs split: if_splits)

lemma lookup_fields:
  assumes "getBaseToSensorTransform env stamp fid s = (t, s2, out)"
  shows "base_transform s2 = base_transform s" and "last_time s2 = last_time s"
    and "depth_source s2 = depth_source s" and "publish_tf s2 = publish_tf s"
    and "translation_correction_factor s2 = translation_correction_factor s"
    and "odom_frame_id s2 = odom_frame_id s"
    and "base_link_frame_id s2 = base_link_frame_id s"
    and "initial_base_to_sensor s2 = initial_base_to_sensor s"
    and "visual_odometer s2 = visual_odometer s"
    and "reset_odometer s2 = reset_odometer s"
    and "last_published_tf_time s2 = last_published_tf_time s"
  using assms
  by (auto simp: getBaseToSensorTransform_def split: if_splits)

lemma ensure_fields:
  assumes "ensure_odometer env f s = (first_run, s1, out0)"
  shows "base_transform s1 = base_transform s" and "last_time s1 = last_time s"
    and "depth_source s1 = depth_source s" and "publish_tf s1 = publish_tf s"
    and "translation_correction_factor s1 = translation_correction_factor s"
    and "odom_frame_id s1 = odom_frame_id s"
    and "base_link_frame_id s1 = base_link_frame_id s"
    and "last_published_tf_time s1 = last_published_tf_time s"
    and "visual_odometer s1"
  using assms
  by (auto simp: ensure_odometer_def initOdometer_def Let_def
        dest: lookup_fields split: if_splits prod.splits)

lemma ensure_quiet:
  assumes "ensure_odometer env f s = (first_run, s1, out0)"
  shows "tf_broadcasts out0 = []" and "odom_msgs out0 = []"
    and "pose_msgs out0 = []" and "info_msgs out0 = []"
  using assms
  by (auto simp: ensure_odometer_def initOdometer_def Let_def projection_defs
        getBaseToSensorTransform_def split: if_splits prod.splits)

lemma ensure_tracking:
  "visual_odometer s \<Longrightarrow> ensure_odometer env f s = (False, s, [])"
  by (simp add: ensure_odometer_def)

lemma features_quiet:
  "tf_broadcasts (features_out fr f) = []" "odom_msgs (features_out fr f) = []"
  "pose_msgs (features_out fr f) = []" "info_msgs (features_out fr f) = []"
  by (simp_all add: features_out_def projection_defs)

lemma projections_append:
  "tf_broadcasts (a @ b) = tf_broadcasts a @ tf_broadcasts b"
  "odom_msgs (a @ b) = odom_msgs a @ odom_msgs b"
  "pose_msgs (a @ b) = pose_msgs a @ pose_msgs b"
  "info_msgs (a @ b) = info_msgs a @ info_msgs b"
  by (simp_all add: projection_defs)

lemma process_failure:
  assumes "ensure_odometer env f s = (first_run, s1, out0)"
    and "depth_source s" and "img_step f = img_width f" and "est_status f \<noteq> SUCCESS"
  shows "process env f s =
           Inr (s1\<lparr>last_time := 0\<rparr>,
                out0 @ features_out first_run f @
                [RosWarn ''fovis odometry failed'',
                 OdomPub (new_odom_msg f s1), PosePub (new_pose_msg f s1),
                 InfoPub (fovis_info f)])"
  using assms ensure_fields(3)[OF assms(1)] by (simp add: process_def)

lemma process_nan:
  assumes "ensure_odometer env f s = (first_run, s1, out0)"
    and "depth_source s" and "img_step f = img_width f" and "est_status f = SUCCESS"
    and "getBaseToSensorTransform env (img_stamp f) (img_frame_id f) s1 = (cur, s2, outg)"
    and "has_nan (eigenToTF (est_pose f))"
  shows "process env f s =
           Inr (s2\<lparr>initial_base_to_sensor := tf_mul (base_transform s2) cur,
                    visual_odometer := False, reset_odometer := True\<rparr>,
                out0 @ features_out first_run f @ outg @
                [RosError ''NaN value in fovis tf... Resetting odometer''])"
  using assms ensure_fields(3)[OF assms(1)] by (simp add: process_def on_success_def)

lemma process_valid:
  assumes "ensure_odometer env f s = (first_run, s1, out0)"
    and "depth_source s" and "img_step f = img_width f" and "est_status f = SUCCESS"
    and "getBaseToSensorTransform env (img_stamp f) (img_frame_id f) s1 = (cur, s2, outg)"
    and "\<not> has_nan (eigenToTF (est_pose f))"
    and "bt = integrate_pose s2 (eigenToTF (est_pose f)) cur"
    and "dt = (if isZero (last_time s) then Num 0 else toSec (img_stamp f - last_time s))"
    and "odom1 = (new_odom_msg f s1)\<lparr>odom_pose := poseTFToMsg bt\<rparr>"
  shows "process env f s =
           Inr (s2\<lparr>base_transform := bt, last_time := img_stamp f,
                    last_published_tf_time := img_stamp f\<rparr>,
                out0 @ features_out first_run f @ outg @
                (if publish_tf s
                 then [SendTransform bt (img_stamp f) (odom_frame_id s) (base_link_frame_id s)]
                 else []) @
                [OdomPub (if dgreater dt (Num 0) then fill_twist cur f dt odom1 else odom1),
                 PosePub ((new_pose_msg f s1)\<lparr>ps_pose := poseTFToMsg bt\<rparr>),
                 InfoPub (fovis_info f)])"
  using assms ensure_fields[OF assms(1)] lookup_fields[OF assms(5)]
  by (simp add: process_def on_success_def Let_def)

lemma lookup_latest:
  assumes "\<forall>a b. tf_listener env a b 0 = tf_listener env' a b 0" and "now env = now env'"
  shows "getBaseToSensorTransform env stamp fid s = getBaseToSensorTransform env' stamp' fid s"
  using assms by (simp add: getBaseToSensorTransform_def canTransform_def lookupTransform_def)

lemma spaced_Cons:
  "spaced g (a # ts) = ((ts = [] \<or> a + g \<le> hd ts) \<and> spaced g ts)"
  by (cases ts) auto

lemma toSec_real_gap:
  "toSec_real a + 10 \<le> toSec_real b \<longleftrightarrow> a + 10 * 10 ^ 9 \<le> b"
proof -
  have "toSec_real a + 10 \<le> toSec_real b \<longleftrightarrow>
          real_of_int (a + 10 * 10 ^ 9) \<le> real_of_int b"
    by (simp add: toSec_real_def divide_simps) linarith
  then show ?thesis
    by (simp only: of_int_le_iff)
qed

lemma warn_times_spaced_aux:
  "spaced (10 * 10 ^ 9) (warn_times calls s)
   \<and> (\<forall>w \<in> set (warn_times calls s). throttle_last_hit s + 10 \<le> toSec_real w)"
proof (induction calls arbitrary: s)
  case Nil
  then show ?case by simp
next
  case (Cons c calls)
  obtain env stamp fid where c: "c = (env, stamp, fid)" by (cases c) auto
  show ?case
  proof (cases "\<not> canTransform env (base_link_frame_id s) fid 0
                \<and> throttle_passes (throttle_last_hit s) 10 (now env)")
    case False
    then have "warn_times (c # calls) s = warn_times calls s"
      by (auto simp: c getBaseToSensorTransform_def throttled_warnings_def)
    then show ?thesis using Cons.IH[of s] by simp
  next
    case True
    let ?s' = "s\<lparr>throttle_last_hit := toSec_real (now env)\<rparr>"
    from True have w: "warn_times (c # calls) s = now env # warn_times calls ?s'"
      by (simp add: c getBaseToSensorTransform_def throttled_warnings_def)
    from Cons.IH[of ?s']
    have sp: "spaced (10 * 10 ^ 9) (warn_times calls ?s')"
      and lb: "\<forall>w \<in> set (warn_times calls ?s'). toSec_real (now env) + 10 \<le> toSec_real w"
      by simp_all
    from True have th: "throttle_last_hit s + 10 \<le> toSec_real (now env)"
      by (simp add: throttle_passes_def)
    have hd_ok: "warn_times calls ?s' = [] \<or> now env + 10 * 10 ^ 9 \<le> hd (warn_times calls ?s')"
    proof (cases "warn_times calls ?s'")
      case Nil
      then show ?thesis by simp
    next
      case (Cons b r)
      with lb have "toSec_real (now env) + 10 \<le> toSec_real b" by simp
      then show ?thesis using Cons by (simp add: toSec_real_gap)
    qed
    have "\<forall>w \<in> set (warn_times calls ?s'). throttle_last_hit s + 10 \<le> toSec_real w"
      using lb th by fastforce
    then show ?thesis
      unfolding w using sp hd_ok th by (simp add: spaced_Cons)
  qed
qed

lemma process_returns:
  "(process env f s = Inl AssertionFailed) = (\<not> depth_source s \<or> img_step f \<noteq> img_width f)"
proof -
  obtain first_run s1 out0 where e: "ensure_odometer env f s = (first_run, s1, out0)"
    by (cases "ensure_odometer env f s") auto
  show ?thesis
    using ensure_fields(3)[OF e]
    by (simp add: process_def e split: prod.splits)
qed

section \<open>The example inputs, evaluated\<close>

lemmas tf_defs = tf_mul_def tf_apply_def inverse_tf_def mat_mul_def mat_vec_def transpose_m_def
  tdotx_def tdoty_def tdotz_def dot_def vec_neg_def vec_scale_def vec_div_def setOrigin_def
  identity_tf_def identity_m_def zero_vector_def dsub_def signed_inf_def

lemma getRotation_identity: "getRotation_m identity_m = identity_q"
  by (simp add: getRotation_m_def identity_m_def identity_q_def m_el_def dgreater_def dsub_def Let_def)

lemma setRotation_identity: "setRotation identity_q = identity_m"
  by (simp add: setRotation_def identity_q_def identity_m_def length2_def dsub_def Let_def)

lemma eigenToTF_translation_x:
  "eigenToTF (translation_x v) = Transform identity_m (Vector3 v (Num 0) (Num 0))"
  by (simp add: eigenToTF_def translation_x_def setRotation_identity)

lemma no_nan_translation_x: "has_nan (eigenToTF (translation_x v)) = isnan v"
  by (simp add: eigenToTF_translation_x has_nan_def getRotation_def getRotation_identity
        identity_q_def)

lemma integrate_x:
  "integrate_pose (tracking (Num k) t) (eigenToTF (translation_x (Num x))) identity_tf
     = Transform identity_m (Vector3 (Num (x * k)) (Num 0) (Num 0))"
  by (simp add: integrate_pose_def tracking_def eigenToTF_translation_x tf_defs Let_def)

lemma integrate_inf:
  "integrate_pose (tracking (Num 1) t) (eigenToTF (translation_x PInf)) identity_tf
     = Transform identity_m (Vector3 PInf NaN NaN)"
  by (simp add: integrate_pose_def tracking_def eigenToTF_translation_x tf_defs Let_def)

lemma lookup_identity_env:
  "getBaseToSensorTransform identity_env stamp fid s = (identity_tf, s, [])"
  by (simp add: getBaseToSensorTransform_def identity_env_def canTransform_def
        lookupTransform_def)

lemma poseTFToMsg_translation:
  "poseTFToMsg (Transform identity_m v) = \<lparr>position = v, orientation = identity_q\<rparr>"
  by (simp add: poseTFToMsg_def getRotation_def getRotation_identity quaternionTFToMsg_def
        identity_q_def length2_def dsub_def dgreater_def QUATERNION_TOLERANCE_def)


lemma new_odom_twist:
  "twist_linear (new_odom_msg f s) = zero_vector"
  "twist_angular (new_odom_msg f s) = zero_vector"
  "twist_covariance (new_odom_msg f s) = replicate 36 (Num 0)"
  by (simp_all add: new_odom_msg_def default_Odometry_def)

lemma odom_msgs_simps:
  "odom_msgs [] = []"
  "odom_msgs (OdomPub m # r) = m # odom_msgs r"
  "odom_msgs (SendTransform t st a b # r) = odom_msgs r"
  "odom_msgs (PosePub pm # r) = odom_msgs r"
  "odom_msgs (InfoPub i # r) = odom_msgs r"
  "odom_msgs (FeaturesPub st a # r) = odom_msgs r"
  "odom_msgs (RosError e # r) = odom_msgs r"
  "odom_msgs (RosWarn e # r) = odom_msgs r"
  "odom_msgs (RosWarnThrottle a b # r) = odom_msgs r"
  by (simp_all add: odom_msgs_def)


lemma process_tracking_identity:
  assumes "\<not> isnan v"
    and "bt = integrate_pose (tracking k t0) (eigenToTF (translation_x v)) identity_tf"
    and "odom1 = (new_odom_msg (frame t SUCCESS (translation_x v) m) (tracking k t0))
                   \<lparr>odom_pose := poseTFToMsg bt\<rparr>"
    and "dt = (if t0 = 0 then Num 0 else toSec (t - t0))"
  shows "process identity_env (frame t SUCCESS (translation_x v) m) (tracking k t0) =
           Inr ((tracking k t0)\<lparr>base_transform := bt, last_time := t,
                                 last_published_tf_time := t\<rparr>,
                [SendTransform bt t ''/odom'' ''/base_link'',
                 OdomPub (if dgreater dt (Num 0)
                          then fill_twist identity_tf (frame t SUCCESS (translation_x v) m)
                                 dt odom1
                          else odom1),
                 PosePub ((new_pose_msg (frame t SUCCESS (translation_x v) m) (tracking k t0))
                            \<lparr>ps_pose := poseTFToMsg bt\<rparr>),
                 InfoPub (fovis_info (frame t SUCCESS (translation_x v) m))])"
proof -
  let ?f = "frame t SUCCESS (translation_x v) m"
  have e: "ensure_odometer identity_env ?f (tracking k t0) = (False, tracking k t0, [])"
    by (simp add: ensure_tracking tracking_def)
  have d: "depth_source (tracking k t0)" by (simp add: tracking_def)
  have w: "img_step ?f = img_width ?f" by (simp add: frame_def)
  have st: "est_status ?f = SUCCESS" by (simp add: frame_def)
  have g: "getBaseToSensorTransform identity_env (img_stamp ?f) (img_frame_id ?f)
             (tracking k t0) = (identity_tf, tracking k t0, [])"
    by (rule lookup_identity_env)
  have n: "\<not> has_nan (eigenToTF (est_pose ?f))"
    using assms(1) by (simp add: frame_def no_nan_translation_x)
  have bt: "bt = integrate_pose (tracking k t0) (eigenToTF (est_pose ?f)) identity_tf"
    using assms(2) by (simp add: frame_def)
  have dt: "dt = (if isZero (last_time (tracking k t0)) then Num 0
                  else toSec (img_stamp ?f - last_time (tracking k t0)))"
    using assms(4) by (simp add: frame_def tracking_def isZero_def)
  show ?thesis
    unfolding process_valid[OF e d w st g n bt dt assms(3)]
    by (simp add: features_out_def frame_def tracking_def)
qed

section \<open>The covariance loops\<close>

lemma inner_loop:
  assumes "length c = 36" and "i < 6" and "n \<le> 6"
  shows "length (fold (\<lambda>j c'. c'[j * 6 + i := m i j]) [0..<n] c) = 36
         \<and> (\<forall>k < 36. fold (\<lambda>j c'. c'[j * 6 + i := m i j]) [0..<n] c ! k =
               (if k mod 6 = i \<and> k div 6 < n then m i (k div 6) else c ! k))"
  using assms(3)
proof (induction n)
  case 0
  then show ?case using assms(1) by simp
next
  case (Suc n)
  let ?r = "fold (\<lambda>j c'. c'[j * 6 + i := m i j]) [0..<n] c"
  from Suc have len: "length ?r = 36"
    and ih: "\<forall>k < 36. ?r ! k = (if k mod 6 = i \<and> k div 6 < n then m i (k div 6) else c ! k)"
    by simp_all
  have step: "fold (\<lambda>j c'. c'[j * 6 + i := m i j]) [0..<Suc n] c = ?r[n * 6 + i := m i n]"
    by simp
  have pos: "n * 6 + i < length ?r"
    using Suc.prems assms(2) len by simp
  have "?r[n * 6 + i := m i n] ! k =
          (if k mod 6 = i \<and> k div 6 < Suc n then m i (k div 6) else c ! k)"
    if k: "k < 36" for k
  proof (cases "k = n * 6 + i")
    case True
    then show ?thesis using pos assms(2) by simp
  next
    case False
    then have ne: "\<not> (k mod 6 = i \<and> k div 6 = n)"
      using assms(2) by auto
    from False have "?r[n * 6 + i := m i n] ! k = ?r ! k" by simp
    also have "\<dots> = (if k mod 6 = i \<and> k div 6 < n then m i (k div 6) else c ! k)"
      using ih k by simp
    finally show ?thesis using ne by (auto simp: less_Suc_eq)
  qed
  then show ?case
    unfolding step using len by simp
qed

lemma outer_loop:
  assumes "length c = 36" and "n \<le> 6"
  shows "length (fold (\<lambda>i c. fold (\<lambda>j c'. c'[j * 6 + i := m i j]) [0..<6] c) [0..<n] c) = 36
         \<and> (\<forall>k < 36.
               fold (\<lambda>i c. fold (\<lambda>j c'. c'[j * 6 + i := m i j]) [0..<6] c) [0..<n] c ! k =
               (if k mod 6 < n then m (k mod 6) (k div 6) else c ! k))"
  using assms(2)
proof (induction n)
  case 0
  then show ?case using assms(1) by simp
next
  case (Suc n)
  let ?r = "fold (\<lambda>i c. fold (\<lambda>j c'. c'[j * 6 + i := m i j]) [0..<6] c) [0..<n] c"
  from Suc have len: "length ?r = 36"
    and ih: "\<forall>k < 36. ?r ! k = (if k mod 6 < n then m (k mod 6) (k div 6) else c ! k)"
    by simp_all
  from Suc.prems have n: "n < 6" by simp
  note inner = inner_loop[OF len n order_refl, of m]
  have step: "fold (\<lambda>i c. fold (\<lambda>j c'. c'[j * 6 + i := m i j]) [0..<6] c) [0..<Suc n] c =
                fold (\<lambda>j c'. c'[j * 6 + n := m n j]) [0..<6] ?r"
    by simp
  have d: "\<And>k::nat. k < 36 \<Longrightarrow> k div 6 < 6" by auto
  show ?case
    unfolding step using inner ih d
    by (auto simp: less_Suc_eq)
qed

lemma copy_covariance_nth:
  assumes "length c = 36" and "i < 6" and "j < 6"
  shows "copy_covariance m c ! (j * 6 + i) = m i j"
    and "length (copy_covariance m c) = 36"
proof -
  have k: "j * 6 + i < 36" using assms(2,3) by simp
  have md: "(j * 6 + i) mod 6 = i" "(j * 6 + i) div 6 = j" using assms(2) by simp_all
  from outer_loop[OF assms(1) order_refl, of m] k md assms(2)
  show "copy_covariance m c ! (j * 6 + i) = m i j"
    unfolding copy_covariance_def by simp
  from outer_loop[OF assms(1) order_refl, of m]
  show "length (copy_covariance m c) = 36"
    unfolding copy_covariance_def by simp
qed

lemma dt_positive:
  assumes "\<not> isZero (last_time s)" and "0 < img_stamp f - last_time s"
  shows "dgreater (if isZero (last_time s) then Num 0
                   else toSec (img_stamp f - last_time s)) (Num 0)"
  using assms by (simp add: dgreater_def toSec_def toSec_real_def)

lemma fill_twist_fields:
  "twist_covariance (fill_twist cur f dt odom) =
     copy_covariance (est_motion_cov f) (twist_covariance odom)"
  "odom_pose (fill_twist cur f dt odom) = odom_pose odom"
  "twist_linear (fill_twist cur f dt odom) =
     Vector3 (ddiv (getX (getOrigin (delta_base_transform cur (eigenToTF (est_motion f))))) dt)
             (ddiv (getY (getOrigin (delta_base_transform cur (eigenToTF (est_motion f))))) dt)
             (ddiv (getZ (getOrigin (delta_base_transform cur (eigenToTF (est_motion f))))) dt)"
  "twist_angular (fill_twist cur f dt odom) =
     vec_div (vec_scale
                (getAxis (getRotation (delta_base_transform cur (eigenToTF (est_motion f)))))
                (getAngle (getRotation (delta_base_transform cur (eigenToTF (est_motion f))))))
             dt"
  by (simp_all add: fill_twist_def Let_def)

section \<open>A wide rotation, evaluated\<close>

lemma sqrt_576_169: "sqrt (576 / 169) = 24 / 13"
  by (rule real_sqrt_unique) (simp_all add: power2_eq_square)

lemma sqrt_144_169: "sqrt (144 / 169) = 12 / 13"
  by (rule real_sqrt_unique) (simp_all add: power2_eq_square)

lemma setRotation_wide_turn:
  "setRotation (Quaternion (Num (12/13)) (Num 0) (Num 0) (Num (- (5/13)))) =
     Matrix3x3 (Vector3 (Num 1) (Num 0) (Num 0))
               (Vector3 (Num 0) (Num (- (119/169))) (Num (120/169)))
               (Vector3 (Num 0) (Num (- (120/169))) (Num (- (119/169))))"
  by (simp add: setRotation_def length2_def dsub_def Let_def)

lemma delta_wide_turn:
  "delta_base_transform identity_tf (eigenToTF wide_turn_x) =
     Transform (Matrix3x3 (Vector3 (Num 1) (Num 0) (Num 0))
               (Vector3 (Num 0) (Num (- (119/169))) (Num (120/169)))
               (Vector3 (Num 0) (Num (- (120/169))) (Num (- (119/169))))) zero_vector"
  by (simp add: delta_base_transform_def eigenToTF_def wide_turn_x_def setRotation_wide_turn
        tf_defs Let_def)

lemma getRotation_wide_turn:
  "getRotation_m (Matrix3x3 (Vector3 (Num 1) (Num 0) (Num 0))
               (Vector3 (Num 0) (Num (- (119/169))) (Num (120/169)))
               (Vector3 (Num 0) (Num (- (120/169))) (Num (- (119/169))))) =
     Quaternion (Num (12/13)) (Num 0) (Num 0) (Num (- (5/13)))"
  by (simp add: getRotation_m_def m_el_def dgreater_def dsub_def Let_def sqrt_576_169)

lemma getAxis_wide_turn:
  "getAxis (Quaternion (Num (12/13)) (Num 0) (Num 0) (Num (- (5/13)))) =
     Vector3 (Num 1) (Num 0) (Num 0)"
  by (simp add: getAxis_def dsub_def Let_def TFSIMD_EPSILON_def sqrt_144_169)

lemma getAngle_wide_turn:
  "getAngle (Quaternion (Num (12/13)) (Num 0) (Num 0) (Num (- (5/13)))) =
     Num (2 * arccos (- (5/13)))"
  by (simp add: getAngle_def)

lemma angle_beyond_pi: "pi < 2 * arccos (- (5/13))"
proof -
  have "arccos 0 < arccos (- (5/13))"
    by (rule arccos_less_arccos) simp_all
  then show ?thesis by simp
qed


lemma getAngle_range:
  assumes "qw q = Num w"
  shows "\<exists>a. getAngle q = Num a \<and> 0 \<le> a \<and> a \<le> 2 * pi \<and> (0 \<le> w \<longrightarrow> a \<le> pi)"
proof -
  define c where "c = (if w < - 1 then - 1 else if 1 < w then 1 else w)"
  have b: "- 1 \<le> c" "c \<le> 1" by (auto simp: c_def)
  have a: "getAngle q = Num (2 * arccos c)"
    using assms by (simp add: getAngle_def c_def)
  have lo: "0 \<le> arccos c" by (rule arccos_lbound[OF b])
  have hi: "arccos c \<le> pi" by (rule arccos_ubound[OF b])
  have half: "arccos c \<le> pi / 2" if "0 \<le> w"
  proof -
    from that have "0 \<le> c" by (auto simp: c_def)
    then show ?thesis using b(2) by (rule arccos_le_pi2)
  qed
  show ?thesis
    using a lo hi half by (intro exI[of _ "2 * arccos c"]) auto
qed

lemma process_tracking_moved:
  assumes "\<not> isnan v"
    and "s = (tracking k t0)\<lparr>base_transform := b\<rparr>"
    and "bt = integrate_pose (tracking k t0) (eigenToTF (translation_x v)) identity_tf"
    and "odom1 = (new_odom_msg (frame t SUCCESS (translation_x v) m) (tracking k t0))
                   \<lparr>odom_pose := poseTFToMsg bt\<rparr>"
    and "dt = (if t0 = 0 then Num 0 else toSec (t - t0))"
  shows "process identity_env (frame t SUCCESS (translation_x v) m) s =
           Inr ((tracking k t)\<lparr>base_transform := bt\<rparr>,
                [SendTransform bt t ''/odom'' ''/base_link'',
                 OdomPub (if dgreater dt (Num 0)
                          then fill_twist identity_tf (frame t SUCCESS (translation_x v) m)
                                 dt odom1
                          else odom1),
                 PosePub ((new_pose_msg (frame t SUCCESS (translation_x v) m) (tracking k t0))
                            \<lparr>ps_pose := poseTFToMsg bt\<rparr>),
                 InfoPub (fovis_info (frame t SUCCESS (translation_x v) m))])"
proof -
  let ?f = "frame t SUCCESS (translation_x v) m"
  have e: "ensure_odometer identity_env ?f s = (False, s, [])"
    by (simp add: ensure_tracking tracking_def assms(2))
  have d: "depth_source s" by (simp add: tracking_def assms(2))
  have w: "img_step ?f = img_width ?f" by (simp add: frame_def)
  have st: "est_status ?f = SUCCESS" by (simp add: frame_def)
  have g: "getBaseToSensorTransform identity_env (img_stamp ?f) (img_frame_id ?f) s =
             (identity_tf, s, [])"
    by (rule lookup_identity_env)
  have n: "\<not> has_nan (eigenToTF (est_pose ?f))"
    using assms(1) by (simp add: frame_def no_nan_translation_x)
  have bt: "bt = integrate_pose s (eigenToTF (est_pose ?f)) identity_tf"
    using assms(3) by (simp add: frame_def integrate_pose_def assms(2) tracking_def)
  have dt: "dt = (if isZero (last_time s) then Num 0
                  else toSec (img_stamp ?f - last_time s))"
    using assms(5) by (simp add: frame_def tracking_def isZero_def assms(2))
  have o: "odom1 = (new_odom_msg ?f s)\<lparr>odom_pose := poseTFToMsg bt\<rparr>"
    using assms(4) by (simp add: new_odom_msg_def tracking_def assms(2))
  show ?thesis
    unfolding process_valid[OF e d w st g n bt dt o]
    by (simp add: features_out_def frame_def tracking_def assms(2) new_pose_msg_def)
qed

lemma delta_translation_x:
  "delta_base_transform identity_tf (eigenToTF (translation_x (Num x))) =
     Transform identity_m (Vector3 (Num x) (Num 0) (Num 0))"
  by (simp add: delta_base_transform_def eigenToTF_translation_x tf_defs)

section \<open>NaN through the rotation conversions\<close>

lemma projection_simps:
  "tf_broadcasts [] = []"
  "tf_broadcasts (SendTransform t st a b # r) = (t, st) # tf_broadcasts r"
  "tf_broadcasts (OdomPub om # r) = tf_broadcasts r"
  "tf_broadcasts (PosePub pm # r) = tf_broadcasts r"
  "tf_broadcasts (InfoPub i # r) = tf_broadcasts r"
  "tf_broadcasts (RosError e # r) = tf_broadcasts r"
  "tf_broadcasts (RosWarn e # r) = tf_broadcasts r"
  "pose_msgs [] = []"
  "pose_msgs (PosePub pm # r) = pm # pose_msgs r"
  "pose_msgs (SendTransform t st a b # r) = pose_msgs r"
  "pose_msgs (OdomPub om # r) = pose_msgs r"
  "pose_msgs (InfoPub i # r) = pose_msgs r"
  "pose_msgs (RosError e # r) = pose_msgs r"
  "pose_msgs (RosWarn e # r) = pose_msgs r"
  "info_msgs [] = []"
  "info_msgs (InfoPub i # r) = i # info_msgs r"
  "info_msgs (SendTransform t st a b # r) = info_msgs r"
  "info_msgs (OdomPub om # r) = info_msgs r"
  "info_msgs (PosePub pm # r) = info_msgs r"
  "info_msgs (RosError e # r) = info_msgs r"
  "info_msgs (RosWarn e # r) = info_msgs r"
  by (simp_all add: projection_defs)

lemma nan_absorbs:
  "dmul x NaN = NaN" "dadd x NaN = NaN" "ddiv x NaN = NaN" "dsub x NaN = NaN"
  "dsub NaN x = NaN"
  by (cases x; simp add: dsub_def)+

lemma isnan_iff: "isnan v = (v = NaN)"
  by (cases v) simp_all

lemma setRotation_nan:
  assumes "isnan (qx q) \<or> isnan (qy q) \<or> isnan (qz q) \<or> isnan (qw q)"
  shows "setRotation q = nan_matrix"
proof -
  have "length2 q = NaN"
    using assms by (auto simp: length2_def isnan_iff nan_absorbs)
  then show ?thesis
    by (simp add: setRotation_def Let_def nan_absorbs nan_matrix_def)
qed

lemma getRotation_nan: "getRotation_m nan_matrix = Quaternion NaN NaN NaN NaN"
  by (simp add: getRotation_m_def nan_matrix_def m_el_def dgreater_def Let_def nan_absorbs)

lemma raw_nan_detected:
  assumes "isnan (getX (translation p)) \<or> isnan (getY (translation p))
           \<or> isnan (getZ (translation p))
           \<or> isnan (qx (rotation p)) \<or> isnan (qy (rotation p))
           \<or> isnan (qz (rotation p)) \<or> isnan (qw (rotation p))"
  shows "has_nan (eigenToTF p)"
proof (cases "isnan (qx (rotation p)) \<or> isnan (qy (rotation p))
              \<or> isnan (qz (rotation p)) \<or> isnan (qw (rotation p))")
  case True
  then show ?thesis
    by (simp add: has_nan_def eigenToTF_def getRotation_def setRotation_nan getRotation_nan)
next
  case False
  with assms show ?thesis
    by (auto simp: has_nan_def eigenToTF_def Let_def)
qed

section \<open>Failure frames\<close>

text \<open>
  C7. On a frame whose estimator status is a failure code, \<^verbatim>\<open>process\<close> returns, the
  stored body-frame pose is the one before the call, the time of the last success is
  cleared to zero, the info message carries the failure code, and one odometry message
  and one pose message are published with the frame's stamp, the default pose and a zero
  twist. No transform is broadcast.
\<close>

theorem failure_frame_keeps_pose:
  assumes "est_status f \<noteq> SUCCESS" and "depth_source s" and "img_step f = img_width f"
  shows "\<exists>s' out. process env f s = Inr (s', out)
           \<and> base_transform s' = base_transform s
           \<and> last_time s' = 0
           \<and> map motion_estimate_status_code (info_msgs out) = [est_status f]
           \<and> map odom_stamp (odom_msgs out) = [img_stamp f]
           \<and> map odom_pose (odom_msgs out) = [default_Pose]
           \<and> map twist_linear (odom_msgs out) = [zero_vector]
           \<and> map twist_angular (odom_msgs out) = [zero_vector]
           \<and> map ps_stamp (pose_msgs out) = [img_stamp f]
           \<and> map ps_pose (pose_msgs out) = [default_Pose]
           \<and> tf_broadcasts out = []"
proof -
  obtain first_run s1 out0 where e: "ensure_odometer env f s = (first_run, s1, out0)"
    by (cases "ensure_odometer env f s") auto
  note p = process_failure[OF e assms(2,3,1)]
  show ?thesis
    unfolding p
    by (simp add: projections_append ensure_quiet[OF e] features_quiet ensure_fields[OF e])
       (simp add: projection_defs new_odom_msg_def new_pose_msg_def default_Odometry_def
          fovis_info_def)
qed

theorem failure_frame_witness:
  "est_status (frame 7 NO_DATA (translation_x (Num 1)) (translation_x (Num 1))) \<noteq> SUCCESS
   \<and> depth_source (tracking (Num 1) 5)
   \<and> (\<exists>s' out. process identity_env
                   (frame 7 NO_DATA (translation_x (Num 1)) (translation_x (Num 1)))
                   (tracking (Num 1) 5) = Inr (s', out)
         \<and> base_transform s' = base_transform (tracking (Num 1) 5)
         \<and> last_time s' = 0
         \<and> map motion_estimate_status_code (info_msgs out) =
             [est_status (frame 7 NO_DATA (translation_x (Num 1)) (translation_x (Num 1)))]
         \<and> map odom_stamp (odom_msgs out) =
             [img_stamp (frame 7 NO_DATA (translation_x (Num 1)) (translation_x (Num 1)))]
         \<and> map odom_pose (odom_msgs out) = [default_Pose]
         \<and> map twist_linear (odom_msgs out) = [zero_vector]
         \<and> map twist_angular (odom_msgs out) = [zero_vector]
         \<and> map ps_stamp (pose_msgs out) =
             [img_stamp (frame 7 NO_DATA (translation_x (Num 1)) (translation_x (Num 1)))]
         \<and> map ps_pose (pose_msgs out) = [default_Pose]
         \<and> tf_broadcasts out = [])"
proof -
  have h1: "est_status (frame 7 NO_DATA (translation_x (Num 1)) (translation_x (Num 1)))
              \<noteq> SUCCESS"
    by (simp add: frame_def)
  have h2: "depth_source (tracking (Num 1) 5)"
    by (simp add: tracking_def)
  have h3: "img_step (frame 7 NO_DATA (translation_x (Num 1)) (translation_x (Num 1)))
              = img_width (frame 7 NO_DATA (translation_x (Num 1)) (translation_x (Num 1)))"
    by (simp add: frame_def)
  show ?thesis
    by (intro conjI h1 h2 failure_frame_keeps_pose[OF h1 h2 h3])
qed

section \<open>Keepalive\<close>



section \<open>The body-to-sensor offset\<close>

text \<open>
  C9. When the transform tree has no latest transform from the base link to the sensor
  frame, \<^verbatim>\<open>getBaseToSensorTransform\<close> yields the identity. It prints its warning only when
  the throttle lets it, so in any run of lookups two printed warnings are at least ten
  seconds of clock time apart. The lookup has no failing branch: \<^verbatim>\<open>process\<close> stops
  early only on its two input assertions, whatever the transform tree holds.
\<close>

theorem missing_offset_falls_back_to_identity:
  assumes "tf_listener env (base_link_frame_id s) fid 0 = None"
  shows "fst (getBaseToSensorTransform env stamp fid s) = identity_tf
         \<and> throttled_warnings (snd (snd (getBaseToSensorTransform env stamp fid s))) =
             (if throttle_passes (throttle_last_hit s) 10 (now env)
              then [(base_link_frame_id s, fid)] else [])
         \<and> spaced (10 * 10 ^ 9) (warn_times calls s)
         \<and> ((process env f s = Inl AssertionFailed) =
              (\<not> depth_source s \<or> img_step f \<noteq> img_width f))"
proof -
  have a: "fst (getBaseToSensorTransform env stamp fid s) = identity_tf"
    using assms by (simp add: getBaseToSensorTransform_def canTransform_def)
  have b: "throttled_warnings (snd (snd (getBaseToSensorTransform env stamp fid s))) =
             (if throttle_passes (throttle_last_hit s) 10 (now env)
              then [(base_link_frame_id s, fid)] else [])"
    using assms
    by (simp add: getBaseToSensorTransform_def canTransform_def throttled_warnings_def)
  have c: "spaced (10 * 10 ^ 9) (warn_times calls s)"
    using warn_times_spaced_aux[of calls s] by (rule conjunct1)
  show ?thesis
    by (intro conjI a b c process_returns)
qed

theorem missing_offset_witness:
  "tf_listener (empty_env (100 * 10 ^ 9)) (base_link_frame_id (tracking (Num 1) 5))
      ''/camera'' 0 = None
   \<and> fst (getBaseToSensorTransform (empty_env (100 * 10 ^ 9)) 7 ''/camera''
            (tracking (Num 1) 5)) = identity_tf
   \<and> warn_times [(empty_env (100 * 10 ^ 9), 7, ''/camera''),
                  (empty_env (105 * 10 ^ 9), 8, ''/camera''),
                  (empty_env (111 * 10 ^ 9), 9, ''/camera'')] (tracking (Num 1) 5)
       = [100 * 10 ^ 9, 111 * 10 ^ 9]
   \<and> spaced (10 * 10 ^ 9)
        (warn_times [(empty_env (100 * 10 ^ 9), 7, ''/camera''),
                     (empty_env (105 * 10 ^ 9), 8, ''/camera''),
                     (empty_env (111 * 10 ^ 9), 9, ''/camera'')] (tracking (Num 1) 5))"
proof -
  have h: "tf_listener (empty_env (100 * 10 ^ 9)) (base_link_frame_id (tracking (Num 1) 5))
             ''/camera'' 0 = None"
    by (simp add: empty_env_def)
  note inst = missing_offset_falls_back_to_identity[OF h, of 7
                 "[(empty_env (100 * 10 ^ 9), 7, ''/camera''),
                   (empty_env (105 * 10 ^ 9), 8, ''/camera''),
                   (empty_env (111 * 10 ^ 9), 9, ''/camera'')]"
                 "frame 7 SUCCESS (translation_x (Num 1)) (translation_x (Num 1))"]
  have a: "fst (getBaseToSensorTransform (empty_env (100 * 10 ^ 9)) 7 ''/camera''
                 (tracking (Num 1) 5)) = identity_tf"
    using inst by (rule conjunct1)
  have c: "spaced (10 * 10 ^ 9)
        (warn_times [(empty_env (100 * 10 ^ 9), 7, ''/camera''),
                     (empty_env (105 * 10 ^ 9), 8, ''/camera''),
                     (empty_env (111 * 10 ^ 9), 9, ''/camera'')] (tracking (Num 1) 5))"
    using inst by blast
  have w: "warn_times [(empty_env (100 * 10 ^ 9), 7, ''/camera''),
                  (empty_env (105 * 10 ^ 9), 8, ''/camera''),
                  (empty_env (111 * 10 ^ 9), 9, ''/camera'')] (tracking (Num 1) 5)
       = [100 * 10 ^ 9, 111 * 10 ^ 9]"
    by (simp add: empty_env_def tracking_def getBaseToSensorTransform_def canTransform_def
          throttle_passes_def toSec_real_def throttled_warnings_def)
  show ?thesis
    by (intro conjI h a w c)
qed

text \<open>
  C10. \<^verbatim>\<open>getBaseToSensorTransform\<close> asks the transform tree at time zero, the latest
  transform, and never at its \<open>stamp\<close> argument: two transform trees that agree at time
  zero give the same result for any two stamps, and that result is the latest transform
  or the identity. The same holds for the anchor that \<^verbatim>\<open>initOdometer\<close> stores and for
  everything \<^verbatim>\<open>process\<close> computes from the offset.
\<close>

theorem offset_is_latest_not_stamped:
  assumes "\<forall>a b. tf_listener env a b 0 = tf_listener env' a b 0" and "now env = now env'"
  shows "getBaseToSensorTransform env stamp fid s = getBaseToSensorTransform env' stamp' fid s
         \<and> fst (getBaseToSensorTransform env stamp fid s) =
             (case tf_listener env (base_link_frame_id s) fid 0 of
                Some t \<Rightarrow> t | None \<Rightarrow> identity_tf)
         \<and> initOdometer env f s = initOdometer env' f s
         \<and> process env f s = process env' f s"
proof -
  have g: "\<And>stamp fid s. getBaseToSensorTransform env stamp fid s =
                         getBaseToSensorTransform env' stamp fid s"
    by (rule lookup_latest[OF assms])
  have i: "initOdometer env f s = initOdometer env' f s"
    by (simp add: initOdometer_def Let_def g)
  have e: "ensure_odometer env f s = ensure_odometer env' f s"
    by (simp add: ensure_odometer_def initOdometer_def Let_def g)
  have o: "\<And>s1 om pm. on_success env f s1 om pm = on_success env' f s1 om pm"
    by (simp add: on_success_def Let_def g)
  have p: "process env f s = process env' f s"
    by (simp only: process_def e o)
  have v: "fst (getBaseToSensorTransform env stamp fid s) =
             (case tf_listener env (base_link_frame_id s) fid 0 of
                Some t \<Rightarrow> t | None \<Rightarrow> identity_tf)"
    by (simp add: getBaseToSensorTransform_def canTransform_def lookupTransform_def
          split: option.splits)
  show ?thesis
    by (intro conjI lookup_latest[OF assms] v i p)
qed

theorem offset_is_latest_witness:
  "(\<forall>a b. tf_listener latest_only_env a b 0 = tf_listener identity_env a b 0)
   \<and> tf_listener latest_only_env ''/base_link'' ''/camera'' 7 = None
   \<and> getBaseToSensorTransform latest_only_env 7 ''/camera'' (tracking (Num 1) 5) =
       getBaseToSensorTransform identity_env 8 ''/camera'' (tracking (Num 1) 5)
   \<and> fst (getBaseToSensorTransform latest_only_env 7 ''/camera'' (tracking (Num 1) 5)) =
       identity_tf"
proof -
  have h1: "\<forall>a b. tf_listener latest_only_env a b 0 = tf_listener identity_env a b 0"
    by (simp add: latest_only_env_def identity_env_def)
  have h2: "now latest_only_env = now identity_env"
    by (simp add: latest_only_env_def identity_env_def)
  have h3: "tf_listener latest_only_env ''/base_link'' ''/camera'' 7 = None"
    by (simp add: latest_only_env_def)
  note inst = offset_is_latest_not_stamped[OF h1 h2, of 7 "''/camera''" "tracking (Num 1) 5" 8
                 "frame 7 SUCCESS (translation_x (Num 1)) (translation_x (Num 1))"]
  have a: "getBaseToSensorTransform latest_only_env 7 ''/camera'' (tracking (Num 1) 5) =
           getBaseToSensorTransform identity_env 8 ''/camera'' (tracking (Num 1) 5)"
    using inst by (rule conjunct1)
  have "fst (getBaseToSensorTransform latest_only_env 7 ''/camera'' (tracking (Num 1) 5)) =
          (case tf_listener latest_only_env (base_link_frame_id (tracking (Num 1) 5))
                  ''/camera'' 0 of Some t \<Rightarrow> t | None \<Rightarrow> identity_tf)"
    using inst by blast
  also have "\<dots> = identity_tf"
    by (simp add: latest_only_env_def)
  finally have b:
    "fst (getBaseToSensorTransform latest_only_env 7 ''/camera'' (tracking (Num 1) 5)) =
       identity_tf" .
  show ?thesis
    by (intro conjI h1 h3 a b)
qed

section \<open>Pose integration\<close>

text \<open>
  C3. On a success frame whose sensor pose has no NaN, the stored body-frame pose is the
  product anchor, sensor pose, inverse of the current offset, with its origin multiplied
  by the correction factor and its rotation left as it is; this pose is the one in the
  odometry message. \<^verbatim>\<open>loadParams\<close> takes the factor from the parameter, with default one,
  and replaces a factor equal to zero by one. With identity offsets and a sensor pose one
  unit along X, the published position is one unit along X for factor one and two units
  for factor two, and the orientation is the identity in both.
\<close>

theorem body_pose_is_anchored_and_scaled:
  assumes "est_status f = SUCCESS" and "\<not> has_nan (eigenToTF (est_pose f))"
    and "depth_source s" and "img_step f = img_width f"
    and "ensure_odometer env f s = (first_run, s1, out0)"
    and "getBaseToSensorTransform env (img_stamp f) (img_frame_id f) s1 = (cur, s2, outg)"
    and "T = tf_mul (tf_mul (initial_base_to_sensor s1) (eigenToTF (est_pose f)))
                    (inverse_tf cur)"
  shows "(\<exists>s' out. process env f s = Inr (s', out)
            \<and> getOrigin (base_transform s') =
                vec_scale (getOrigin T) (translation_correction_factor s)
            \<and> getBasis (base_transform s') = getBasis T
            \<and> map odom_pose (odom_msgs out) = [poseTFToMsg (base_transform s')])
         \<and> translation_correction_factor (loadParams ps s0) =
             (case param_tf_factor ps of
                None \<Rightarrow> Num 1
              | Some v \<Rightarrow> if deq v (Num 0) then Num 1 else v)
         \<and> map odom_pose (odom_msgs (outputs (process identity_env
               (frame t SUCCESS (translation_x (Num 1)) m) (tracking (Num 1) t0)))) =
             [\<lparr>position = Vector3 (Num 1) (Num 0) (Num 0), orientation = identity_q\<rparr>]
         \<and> map odom_pose (odom_msgs (outputs (process identity_env
               (frame t SUCCESS (translation_x (Num 1)) m) (tracking (Num 2) t0)))) =
             [\<lparr>position = Vector3 (Num 2) (Num 0) (Num 0), orientation = identity_q\<rparr>]"
proof -
  note quiet = projections_append ensure_quiet[OF assms(5)] features_quiet
               lookup_keeps(2-5)[OF assms(6)]
  have anchor: "initial_base_to_sensor s2 = initial_base_to_sensor s1"
    and factor: "translation_correction_factor s2 = translation_correction_factor s"
    using lookup_fields(8,5)[OF assms(6)] ensure_fields(5)[OF assms(5)] by simp_all
  have general: "\<exists>s' out. process env f s = Inr (s', out)
            \<and> getOrigin (base_transform s') =
                vec_scale (getOrigin T) (translation_correction_factor s)
            \<and> getBasis (base_transform s') = getBasis T
            \<and> map odom_pose (odom_msgs out) = [poseTFToMsg (base_transform s')]"
    unfolding process_valid[OF assms(5,3,4,1,6,2) refl refl refl]
    by (simp add: quiet odom_msgs_simps integrate_pose_def Let_def setOrigin_def anchor factor
          assms(7) fill_twist_def)
  have params: "translation_correction_factor (loadParams ps s0) =
             (case param_tf_factor ps of
                None \<Rightarrow> Num 1
              | Some v \<Rightarrow> if deq v (Num 0) then Num 1 else v)"
    by (simp add: loadParams_def param_def Let_def split: option.splits)
  have one: "map odom_pose (odom_msgs (outputs (process identity_env
               (frame t SUCCESS (translation_x (Num 1)) m) (tracking (Num 1) t0)))) =
             [\<lparr>position = Vector3 (Num 1) (Num 0) (Num 0), orientation = identity_q\<rparr>]"
    by (simp add: process_tracking_identity[OF _ refl refl refl] outputs_def odom_msgs_simps
          integrate_x poseTFToMsg_translation fill_twist_def Let_def)
  have two: "map odom_pose (odom_msgs (outputs (process identity_env
               (frame t SUCCESS (translation_x (Num 1)) m) (tracking (Num 2) t0)))) =
             [\<lparr>position = Vector3 (Num 2) (Num 0) (Num 0), orientation = identity_q\<rparr>]"
    by (simp add: process_tracking_identity[OF _ refl refl refl] outputs_def odom_msgs_simps
          integrate_x poseTFToMsg_translation fill_twist_def Let_def)
  show ?thesis
    by (intro conjI general params one two)
qed

theorem body_pose_witness:
  "est_status (frame (10 * 10 ^ 9) SUCCESS (translation_x (Num 1)) (translation_x (Num 1)))
     = SUCCESS
   \<and> \<not> has_nan (eigenToTF (est_pose
           (frame (10 * 10 ^ 9) SUCCESS (translation_x (Num 1)) (translation_x (Num 1)))))
   \<and> depth_source (tracking (Num 2) 0)
   \<and> (\<exists>s' out.
         process identity_env
           (frame (10 * 10 ^ 9) SUCCESS (translation_x (Num 1)) (translation_x (Num 1)))
           (tracking (Num 2) 0) = Inr (s', out)
         \<and> getOrigin (base_transform s') =
             vec_scale (getOrigin (Transform identity_m (Vector3 (Num 1) (Num 0) (Num 0))))
               (translation_correction_factor (tracking (Num 2) 0))
         \<and> getBasis (base_transform s') =
             getBasis (Transform identity_m (Vector3 (Num 1) (Num 0) (Num 0)))
         \<and> map odom_pose (odom_msgs out) = [poseTFToMsg (base_transform s')])"
proof -
  let ?f = "frame (10 * 10 ^ 9) SUCCESS (translation_x (Num 1)) (translation_x (Num 1))"
  let ?s = "tracking (Num 2) 0"
  have h1: "est_status ?f = SUCCESS" by (simp add: frame_def)
  have h2: "\<not> has_nan (eigenToTF (est_pose ?f))"
    by (simp add: frame_def no_nan_translation_x)
  have h3: "depth_source ?s" by (simp add: tracking_def)
  have h4: "img_step ?f = img_width ?f" by (simp add: frame_def)
  have h5: "ensure_odometer identity_env ?f ?s = (False, ?s, [])"
    by (simp add: ensure_tracking tracking_def)
  have h6: "getBaseToSensorTransform identity_env (img_stamp ?f) (img_frame_id ?f) ?s =
              (identity_tf, ?s, [])"
    by (rule lookup_identity_env)
  have h7: "Transform identity_m (Vector3 (Num 1) (Num 0) (Num 0)) =
              tf_mul (tf_mul (initial_base_to_sensor ?s) (eigenToTF (est_pose ?f)))
                     (inverse_tf identity_tf)"
    by (simp add: frame_def tracking_def eigenToTF_translation_x tf_defs)
  note inst = body_pose_is_anchored_and_scaled[OF h1 h2 h3 h4 h5 h6 h7, of no_params ?s 0
                 "translation_x (Num 1)" 0]
  show ?thesis
    by (intro conjI h1 h2 h3 conjunct1[OF inst])
qed

section \<open>Velocity\<close>




text \<open>
  C4. When velocity is computed, the twist covariance of the odometry message has 36
  entries and entry \<open>j * 6 + i\<close> is the estimator's covariance at row \<open>i\<close>, column
  \<open>j\<close>, unscaled. Read row-major, as the message stores a matrix, the entry at row
  \<open>i\<close>, column \<open>j\<close> is therefore the estimator's entry at row \<open>j\<close>, column \<open>i\<close>: the
  transpose. For a symmetric estimator covariance the two matrices are equal entry by
  entry.
\<close>

theorem twist_covariance_is_transposed_copy:
  assumes "est_status f = SUCCESS" and "\<not> has_nan (eigenToTF (est_pose f))"
    and "depth_source s" and "img_step f = img_width f"
    and "\<not> isZero (last_time s)" and "0 < img_stamp f - last_time s"
  shows "\<exists>s' out odom. process env f s = Inr (s', out) \<and> odom_msgs out = [odom]
           \<and> length (twist_covariance odom) = 36
           \<and> (\<forall>i<6. \<forall>j<6. twist_covariance odom ! (j * 6 + i) = est_motion_cov f i j)
           \<and> (\<forall>i<6. \<forall>j<6. cov_entry (twist_covariance odom) i j = est_motion_cov f j i)
           \<and> ((\<forall>i<6. \<forall>j<6. est_motion_cov f i j = est_motion_cov f j i) \<longrightarrow>
                (\<forall>i<6. \<forall>j<6. cov_entry (twist_covariance odom) i j = est_motion_cov f i j))"
proof -
  obtain first_run s1 out0 where e: "ensure_odometer env f s = (first_run, s1, out0)"
    by (cases "ensure_odometer env f s") auto
  obtain cur s2 outg where
    g: "getBaseToSensorTransform env (img_stamp f) (img_frame_id f) s1 = (cur, s2, outg)"
    by (cases "getBaseToSensorTransform env (img_stamp f) (img_frame_id f) s1") auto
  note quiet = projections_append ensure_quiet[OF e] features_quiet lookup_keeps(2-5)[OF g]
  define cov where
    "cov = copy_covariance (est_motion_cov f) (replicate 36 (Num 0))"
  have len: "length cov = 36"
    unfolding cov_def by (rule copy_covariance_nth(2)[where i = 0 and j = 0]) simp_all
  have flat: "cov ! (j * 6 + i) = est_motion_cov f i j" if "i < 6" "j < 6" for i j
    unfolding cov_def by (rule copy_covariance_nth(1)[OF _ that]) simp
  have rowmajor: "cov_entry cov i j = est_motion_cov f j i" if "i < 6" "j < 6" for i j
    unfolding cov_entry_def using flat[OF that(2,1)] .
  have "\<exists>s' out odom. process env f s = Inr (s', out) \<and> odom_msgs out = [odom]
           \<and> twist_covariance odom = cov"
    unfolding process_valid[OF e assms(3,4,1) g assms(2) refl refl refl]
    by (simp add: quiet odom_msgs_simps dt_positive[OF assms(5,6)] fill_twist_fields
          new_odom_twist cov_def)
  then obtain s' out odom where
    "process env f s = Inr (s', out)" "odom_msgs out = [odom]" "twist_covariance odom = cov"
    by blast
  then show ?thesis
    using len flat rowmajor by (intro exI[of _ s'] exI[of _ out] exI[of _ odom]) simp
qed

theorem twist_covariance_witness:
  "est_status (frame (105 * 10 ^ 8) SUCCESS (translation_x (Num 2)) (translation_x (Num 1)))
     = SUCCESS
   \<and> \<not> has_nan (eigenToTF (est_pose
           (frame (105 * 10 ^ 8) SUCCESS (translation_x (Num 2)) (translation_x (Num 1)))))
   \<and> depth_source (tracking (Num 1) (10 * 10 ^ 9))
   \<and> \<not> isZero (last_time (tracking (Num 1) (10 * 10 ^ 9)))
   \<and> 0 < img_stamp
            (frame (105 * 10 ^ 8) SUCCESS (translation_x (Num 2)) (translation_x (Num 1)))
          - last_time (tracking (Num 1) (10 * 10 ^ 9))
   \<and> (\<exists>s' out odom.
         process identity_env
           (frame (105 * 10 ^ 8) SUCCESS (translation_x (Num 2)) (translation_x (Num 1)))
           (tracking (Num 1) (10 * 10 ^ 9)) = Inr (s', out)
         \<and> odom_msgs out = [odom]
         \<and> length (twist_covariance odom) = 36
         \<and> twist_covariance odom ! (1 * 6 + 0) = Num 1)"
proof -
  let ?f = "frame (105 * 10 ^ 8) SUCCESS (translation_x (Num 2)) (translation_x (Num 1))"
  let ?s = "tracking (Num 1) (10 * 10 ^ 9)"
  have h1: "est_status ?f = SUCCESS" by (simp add: frame_def)
  have h2: "\<not> has_nan (eigenToTF (est_pose ?f))"
    by (simp add: frame_def no_nan_translation_x)
  have h3: "depth_source ?s" by (simp add: tracking_def)
  have h4: "img_step ?f = img_width ?f" by (simp add: frame_def)
  have h5: "\<not> isZero (last_time ?s)" by (simp add: tracking_def isZero_def)
  have h6: "0 < img_stamp ?f - last_time ?s" by (simp add: tracking_def frame_def)
  from twist_covariance_is_transposed_copy[OF h1 h2 h3 h4 h5 h6, of identity_env]
  obtain s' out odom where p: "process identity_env ?f ?s = Inr (s', out)"
    and o: "odom_msgs out = [odom]" and l: "length (twist_covariance odom) = 36"
    and c: "\<forall>i<6. \<forall>j<6. twist_covariance odom ! (j * 6 + i) = est_motion_cov ?f i j"
    by blast
  have "twist_covariance odom ! (1 * 6 + 0) = est_motion_cov ?f 0 1"
    by (rule c[rule_format]) simp_all
  then have v: "twist_covariance odom ! (1 * 6 + 0) = Num 1"
    by (simp add: frame_def example_cov_def)
  from p o l v have "\<exists>s' out odom. process identity_env ?f ?s = Inr (s', out)
         \<and> odom_msgs out = [odom] \<and> length (twist_covariance odom) = 36
         \<and> twist_covariance odom ! (1 * 6 + 0) = Num 1"
    by blast
  then show ?thesis
    by (intro conjI h1 h2 h3 h5 h6)
qed

text \<open>
  C4 as it stands, the same row and column on both sides, fails for a matrix that
  is not symmetric: the estimator reports one at row 0, column 1, and the message holds
  zero there.
\<close>

theorem twist_covariance_not_same_entry:
  "est_status (frame (105 * 10 ^ 8) SUCCESS (translation_x (Num 2)) (translation_x (Num 1)))
     = SUCCESS
   \<and> est_motion_cov
       (frame (105 * 10 ^ 8) SUCCESS (translation_x (Num 2)) (translation_x (Num 1))) 0 1
     = Num 1
   \<and> map (\<lambda>m. cov_entry (twist_covariance m) 0 1)
       (odom_msgs (outputs (process identity_env
          (frame (105 * 10 ^ 8) SUCCESS (translation_x (Num 2)) (translation_x (Num 1)))
          (tracking (Num 1) (10 * 10 ^ 9))))) = [Num 0]"
proof -
  let ?f = "frame (105 * 10 ^ 8) SUCCESS (translation_x (Num 2)) (translation_x (Num 1))"
  have h1: "est_status ?f = SUCCESS" by (simp add: frame_def)
  have h2: "est_motion_cov ?f 0 1 = Num 1" by (simp add: frame_def example_cov_def)
  have "copy_covariance example_cov (replicate 36 (Num 0)) ! (0 * 6 + 1) = example_cov 1 0"
    by (rule copy_covariance_nth(1)) simp_all
  then have k: "cov_entry (copy_covariance example_cov (replicate 36 (Num 0))) 0 1 = Num 0"
    by (simp add: cov_entry_def example_cov_def)
  have dt: "dgreater (toSec (105 * 10 ^ 8 - 10 * 10 ^ 9)) (Num 0)"
    by (simp add: dgreater_def toSec_def toSec_real_def)
  have cov: "est_motion_cov ?f = example_cov" by (simp add: frame_def)
  have h3: "map (\<lambda>m. cov_entry (twist_covariance m) 0 1)
       (odom_msgs (outputs (process identity_env ?f (tracking (Num 1) (10 * 10 ^ 9)))))
       = [Num 0]"
    using dt cov k
    by (simp add: process_tracking_identity[OF _ refl refl refl] outputs_def odom_msgs_simps
          fill_twist_fields(1) new_odom_twist)
  show ?thesis
    by (intro conjI h1 h2 h3)
qed

text \<open>
  C5. When velocity is computed, the body-frame delta is the sensor's incremental motion
  between the current offset and its inverse. The linear twist is the delta's origin
  divided by \<open>dt\<close>, component by component. The angular twist is axis times angle,
  divided by \<open>dt\<close>, for the axis and angle that tf reads off the quaternion of the
  delta's rotation: the angle is twice the arc cosine of \<open>w\<close>, between zero and
  \<open>2 pi\<close>, and at most \<open>pi\<close> when \<open>w\<close> is not negative. Two success frames half a
  second apart, each one unit further along X, under identity offsets: the first has a
  zero twist and the second a linear twist of two units per second along X.
\<close>

theorem twist_from_sandwiched_motion:
  assumes "est_status f = SUCCESS" and "\<not> has_nan (eigenToTF (est_pose f))"
    and "depth_source s" and "img_step f = img_width f"
    and "\<not> isZero (last_time s)" and "0 < img_stamp f - last_time s"
    and "ensure_odometer env f s = (first_run, s1, out0)"
    and "getBaseToSensorTransform env (img_stamp f) (img_frame_id f) s1 = (cur, s2, outg)"
    and "delta = tf_mul (tf_mul cur (eigenToTF (est_motion f))) (inverse_tf cur)"
    and "dt = toSec (img_stamp f - last_time s)"
  shows "(\<exists>s' out odom. process env f s = Inr (s', out) \<and> odom_msgs out = [odom]
            \<and> twist_linear odom = Vector3 (ddiv (getX (getOrigin delta)) dt)
                                           (ddiv (getY (getOrigin delta)) dt)
                                           (ddiv (getZ (getOrigin delta)) dt)
            \<and> twist_angular odom =
                vec_div (vec_scale (getAxis (getRotation delta)) (getAngle (getRotation delta)))
                        dt)
         \<and> (\<forall>w. qw (getRotation delta) = Num w \<longrightarrow>
               (\<exists>a. getAngle (getRotation delta) = Num a \<and> 0 \<le> a \<and> a \<le> 2 * pi
                    \<and> (0 \<le> w \<longrightarrow> a \<le> pi)))
         \<and> map (\<lambda>out. map twist_linear (odom_msgs out))
             (process_all identity_env
                [frame (10 * 10 ^ 9) SUCCESS (translation_x (Num 1)) (translation_x (Num 1)),
                 frame (105 * 10 ^ 8) SUCCESS (translation_x (Num 2)) (translation_x (Num 1))]
                (tracking (Num 1) 0))
           = [[zero_vector], [Vector3 (Num 2) (Num 0) (Num 0)]]"
proof -
  note quiet = projections_append ensure_quiet[OF assms(7)] features_quiet
               lookup_keeps(2-5)[OF assms(8)]
  have pos: "dgreater (toSec (img_stamp f - last_time s)) (Num 0)"
    using assms(6) by (simp add: dgreater_def toSec_def toSec_real_def)
  have general: "\<exists>s' out odom. process env f s = Inr (s', out) \<and> odom_msgs out = [odom]
            \<and> twist_linear odom = Vector3 (ddiv (getX (getOrigin delta)) dt)
                                           (ddiv (getY (getOrigin delta)) dt)
                                           (ddiv (getZ (getOrigin delta)) dt)
            \<and> twist_angular odom =
                vec_div (vec_scale (getAxis (getRotation delta)) (getAngle (getRotation delta)))
                        dt"
    unfolding process_valid[OF assms(7,3,4,1,8,2) refl refl refl]
    using assms(5) pos
    by (simp add: quiet odom_msgs_simps fill_twist_fields delta_base_transform_def
          assms(9,10))
  have range: "\<forall>w. qw (getRotation delta) = Num w \<longrightarrow>
               (\<exists>a. getAngle (getRotation delta) = Num a \<and> 0 \<le> a \<and> a \<le> 2 * pi
                    \<and> (0 \<le> w \<longrightarrow> a \<le> pi))"
    using getAngle_range by blast
  let ?f2 = "frame (10 * 10 ^ 9) SUCCESS (translation_x (Num 1)) (translation_x (Num 1))"
  let ?f3 = "frame (105 * 10 ^ 8) SUCCESS (translation_x (Num 2)) (translation_x (Num 1))"
  let ?bt = "integrate_pose (tracking (Num 1) 0) (eigenToTF (translation_x (Num 1)))
               identity_tf"
  have start: "tracking (Num 1) 0 = (tracking (Num 1) 0)\<lparr>base_transform := identity_tf\<rparr>"
    by (simp add: tracking_def)
  have step2: "process identity_env ?f2 (tracking (Num 1) 0) =
      Inr ((tracking (Num 1) (10 * 10 ^ 9))\<lparr>base_transform := ?bt\<rparr>,
           [SendTransform ?bt (10 * 10 ^ 9) ''/odom'' ''/base_link'',
            OdomPub ((new_odom_msg ?f2 (tracking (Num 1) 0))\<lparr>odom_pose := poseTFToMsg ?bt\<rparr>),
            PosePub ((new_pose_msg ?f2 (tracking (Num 1) 0))\<lparr>ps_pose := poseTFToMsg ?bt\<rparr>),
            InfoPub (fovis_info ?f2)])"
    by (subst process_tracking_moved[where b = identity_tf and k = "Num 1" and ?t0.0 = 0,
          OF _ start refl refl refl])
       (simp_all add: dgreater_def)
  let ?bt3 = "integrate_pose (tracking (Num 1) (10 * 10 ^ 9))
                (eigenToTF (translation_x (Num 2))) identity_tf"
  let ?odom3 = "fill_twist identity_tf ?f3 (toSec (105 * 10 ^ 8 - 10 * 10 ^ 9))
                  ((new_odom_msg ?f3 (tracking (Num 1) (10 * 10 ^ 9)))
                     \<lparr>odom_pose := poseTFToMsg ?bt3\<rparr>)"
  have dt3: "dgreater (toSec (105 * 10 ^ 8 - 10 * 10 ^ 9)) (Num 0)"
    by (simp add: dgreater_def toSec_def toSec_real_def)
  have step3: "process identity_env ?f3
                 ((tracking (Num 1) (10 * 10 ^ 9))\<lparr>base_transform := ?bt\<rparr>) =
      Inr ((tracking (Num 1) (105 * 10 ^ 8))\<lparr>base_transform := ?bt3\<rparr>,
           [SendTransform ?bt3 (105 * 10 ^ 8) ''/odom'' ''/base_link'',
            OdomPub ?odom3,
            PosePub ((new_pose_msg ?f3 (tracking (Num 1) (10 * 10 ^ 9)))
                       \<lparr>ps_pose := poseTFToMsg ?bt3\<rparr>),
            InfoPub (fovis_info ?f3)])"
    by (subst process_tracking_moved[where b = ?bt and k = "Num 1"
          and ?t0.0 = "10 * 10 ^ 9", OF _ refl refl refl refl])
       (use dt3 in simp_all)
  have half: "toSec (105 * 10 ^ 8 - 10 * 10 ^ 9) = Num (1 / 2)"
    by (simp add: toSec_def toSec_real_def)
  have m3: "est_motion ?f3 = translation_x (Num 1)" by (simp add: frame_def)
  have lin3: "twist_linear ?odom3 = Vector3 (Num 2) (Num 0) (Num 0)"
    using half m3 by (simp add: fill_twist_fields(3) delta_translation_x)
  have run: "process_all identity_env [?f2, ?f3] (tracking (Num 1) 0) =
      [[SendTransform ?bt (10 * 10 ^ 9) ''/odom'' ''/base_link'',
        OdomPub ((new_odom_msg ?f2 (tracking (Num 1) 0))\<lparr>odom_pose := poseTFToMsg ?bt\<rparr>),
        PosePub ((new_pose_msg ?f2 (tracking (Num 1) 0))\<lparr>ps_pose := poseTFToMsg ?bt\<rparr>),
        InfoPub (fovis_info ?f2)],
       [SendTransform ?bt3 (105 * 10 ^ 8) ''/odom'' ''/base_link'',
        OdomPub ?odom3,
        PosePub ((new_pose_msg ?f3 (tracking (Num 1) (10 * 10 ^ 9)))
                   \<lparr>ps_pose := poseTFToMsg ?bt3\<rparr>),
        InfoPub (fovis_info ?f3)]]"
    by (simp only: process_all.simps step2 step3 sum.case prod.case)
  have example: "map (\<lambda>out. map twist_linear (odom_msgs out))
             (process_all identity_env [?f2, ?f3] (tracking (Num 1) 0))
           = [[zero_vector], [Vector3 (Num 2) (Num 0) (Num 0)]]"
    unfolding run using lin3 by (simp add: odom_msgs_simps new_odom_twist)
  show ?thesis
    by (intro conjI general range example)
qed

theorem twist_witness:
  "est_status (frame (105 * 10 ^ 8) SUCCESS (translation_x (Num 2)) (translation_x (Num 1)))
     = SUCCESS
   \<and> \<not> has_nan (eigenToTF (est_pose
           (frame (105 * 10 ^ 8) SUCCESS (translation_x (Num 2)) (translation_x (Num 1)))))
   \<and> depth_source (tracking (Num 1) (10 * 10 ^ 9))
   \<and> \<not> isZero (last_time (tracking (Num 1) (10 * 10 ^ 9)))
   \<and> 0 < img_stamp
            (frame (105 * 10 ^ 8) SUCCESS (translation_x (Num 2)) (translation_x (Num 1)))
          - last_time (tracking (Num 1) (10 * 10 ^ 9))
   \<and> (\<exists>s' out odom.
         process identity_env
           (frame (105 * 10 ^ 8) SUCCESS (translation_x (Num 2)) (translation_x (Num 1)))
           (tracking (Num 1) (10 * 10 ^ 9)) = Inr (s', out)
         \<and> odom_msgs out = [odom]
         \<and> twist_linear odom = Vector3 (Num 2) (Num 0) (Num 0)
         \<and> twist_angular odom = zero_vector)"
proof -
  let ?f = "frame (105 * 10 ^ 8) SUCCESS (translation_x (Num 2)) (translation_x (Num 1))"
  let ?s = "tracking (Num 1) (10 * 10 ^ 9)"
  let ?delta = "Transform identity_m (Vector3 (Num 1) (Num 0) (Num 0))"
  have h1: "est_status ?f = SUCCESS" by (simp add: frame_def)
  have h2: "\<not> has_nan (eigenToTF (est_pose ?f))"
    by (simp add: frame_def no_nan_translation_x)
  have h3: "depth_source ?s" by (simp add: tracking_def)
  have h4: "img_step ?f = img_width ?f" by (simp add: frame_def)
  have h5: "\<not> isZero (last_time ?s)" by (simp add: tracking_def isZero_def)
  have h6: "0 < img_stamp ?f - last_time ?s" by (simp add: tracking_def frame_def)
  have h7: "ensure_odometer identity_env ?f ?s = (False, ?s, [])"
    by (simp add: ensure_tracking tracking_def)
  have h8: "getBaseToSensorTransform identity_env (img_stamp ?f) (img_frame_id ?f) ?s =
              (identity_tf, ?s, [])"
    by (rule lookup_identity_env)
  have h9: "?delta = tf_mul (tf_mul identity_tf (eigenToTF (est_motion ?f)))
                            (inverse_tf identity_tf)"
    using delta_translation_x[of 1] by (simp add: frame_def delta_base_transform_def)
  have h10: "Num (1 / 2) = toSec (img_stamp ?f - last_time ?s)"
    by (simp add: frame_def tracking_def toSec_def toSec_real_def)
  from twist_from_sandwiched_motion[OF h1 h2 h3 h4 h5 h6 h7 h8 h9 h10]
  obtain s' out odom where p: "process identity_env ?f ?s = Inr (s', out)"
    and o: "odom_msgs out = [odom]"
    and lin: "twist_linear odom =
                Vector3 (ddiv (getX (getOrigin ?delta)) (Num (1 / 2)))
                        (ddiv (getY (getOrigin ?delta)) (Num (1 / 2)))
                        (ddiv (getZ (getOrigin ?delta)) (Num (1 / 2)))"
    and ang: "twist_angular odom =
                vec_div (vec_scale (getAxis (getRotation ?delta))
                                   (getAngle (getRotation ?delta))) (Num (1 / 2))"
    by blast
  from lin have lin': "twist_linear odom = Vector3 (Num 2) (Num 0) (Num 0)" by simp
  from ang have ang': "twist_angular odom = zero_vector"
    by (simp add: getRotation_def getRotation_identity identity_q_def getAngle_def
          getAxis_def dsub_def TFSIMD_EPSILON_def vec_div_def vec_scale_def zero_vector_def
          Let_def)
  from p o lin' ang' have "\<exists>s' out odom. process identity_env ?f ?s = Inr (s', out)
         \<and> odom_msgs out = [odom]
         \<and> twist_linear odom = Vector3 (Num 2) (Num 0) (Num 0)
         \<and> twist_angular odom = zero_vector"
    by blast
  then show ?thesis
    by (intro conjI h1 h2 h3 h5 h6)
qed

text \<open>
  C5 asks for an angle within \<open>(-pi, pi]\<close>, which the code does not keep. For an incremental rotation of about -135
  degrees about X, one second after the last success, tf's quaternion has \<open>w = -5/13\<close>
  and the published angular twist is about 3.93 about X, more than \<open>pi\<close>.
\<close>

theorem twist_angle_beyond_pi:
  "est_status (frame (11 * 10 ^ 9) SUCCESS wide_turn_x wide_turn_x) = SUCCESS
   \<and> map twist_angular
       (odom_msgs (outputs (process identity_env
          (frame (11 * 10 ^ 9) SUCCESS wide_turn_x wide_turn_x)
          (tracking (Num 1) (10 * 10 ^ 9)))))
     = [Vector3 (Num (2 * arccos (- (5/13)))) (Num 0) (Num 0)]
   \<and> pi < 2 * arccos (- (5/13))"
proof -
  let ?f = "frame (11 * 10 ^ 9) SUCCESS wide_turn_x wide_turn_x"
  let ?s = "tracking (Num 1) (10 * 10 ^ 9)"
  have st: "est_status ?f = SUCCESS" by (simp add: frame_def)
  have d: "depth_source ?s" by (simp add: tracking_def)
  have w: "img_step ?f = img_width ?f" by (simp add: frame_def)
  have e: "ensure_odometer identity_env ?f ?s = (False, ?s, [])"
    by (simp add: ensure_tracking tracking_def)
  have g: "getBaseToSensorTransform identity_env (img_stamp ?f) (img_frame_id ?f) ?s =
             (identity_tf, ?s, [])"
    by (rule lookup_identity_env)
  have n: "\<not> has_nan (eigenToTF (est_pose ?f))"
    by (simp add: frame_def has_nan_def eigenToTF_def wide_turn_x_def setRotation_wide_turn
          getRotation_def getRotation_wide_turn zero_vector_def)
  have dt: "(if isZero (last_time ?s) then Num 0 else toSec (img_stamp ?f - last_time ?s))
              = Num 1"
    by (simp add: tracking_def frame_def isZero_def toSec_def toSec_real_def)
  have m: "est_motion ?f = wide_turn_x" by (simp add: frame_def)
  have ang: "twist_angular (fill_twist identity_tf ?f (Num 1) odom) =
               Vector3 (Num (2 * arccos (- (5/13)))) (Num 0) (Num 0)" for odom
    using m
    by (simp add: fill_twist_fields(4) delta_wide_turn getRotation_def
          getRotation_wide_turn getAxis_wide_turn getAngle_wide_turn vec_div_def
          vec_scale_def)
  have out: "map twist_angular (odom_msgs (outputs (process identity_env ?f ?s)))
               = [Vector3 (Num (2 * arccos (- (5/13)))) (Num 0) (Num 0)]"
    unfolding process_valid[OF e d w st g n refl refl refl] dt
    using ang
    by (simp add: outputs_def projections_append features_quiet odom_msgs_simps
          dgreater_def)
  show ?thesis
    by (intro conjI st out angle_beyond_pi)
qed

section \<open>Invalid estimates\<close>

text \<open>
  C2. On a success frame whose sensor pose has a NaN among its seven components,
  \<^verbatim>\<open>process\<close> returns with the anchor set to the stored body pose times the current
  offset, the estimator pointer null and the reset flag up. The stored body pose and the
  time of the last success are as before, and no transform, odometry, pose or info
  message goes out. The next call, whatever its frame, creates the estimator again and
  keeps this anchor without a lookup.
\<close>

theorem nan_pose_reanchors_and_suppresses:
  assumes "est_status f = SUCCESS" and "has_nan (eigenToTF (est_pose f))"
    and "depth_source s" and "img_step f = img_width f"
    and "ensure_odometer env f s = (first_run, s1, out0)"
    and "getBaseToSensorTransform env (img_stamp f) (img_frame_id f) s1 = (cur, s2, outg)"
  shows "\<exists>s' out. process env f s = Inr (s', out)
           \<and> initial_base_to_sensor s' = tf_mul (base_transform s) cur
           \<and> \<not> visual_odometer s' \<and> reset_odometer s'
           \<and> base_transform s' = base_transform s \<and> last_time s' = last_time s
           \<and> tf_broadcasts out = [] \<and> odom_msgs out = []
           \<and> pose_msgs out = [] \<and> info_msgs out = []
           \<and> ensure_odometer env' f' s' =
               (True, s'\<lparr>visual_odometer := True, reset_odometer := False\<rparr>, [])"
proof -
  note quiet = projections_append ensure_quiet[OF assms(5)] features_quiet
               lookup_keeps(2-5)[OF assms(6)]
  have keep: "base_transform s2 = base_transform s" "last_time s2 = last_time s"
    using lookup_fields(1,2)[OF assms(6)] ensure_fields(1,2)[OF assms(5)] by simp_all
  show ?thesis
    unfolding process_nan[OF assms(5,3,4,1,6,2)]
    by (simp add: quiet projection_simps odom_msgs_simps keep ensure_odometer_def
          initOdometer_def Let_def)
qed

theorem nan_pose_witness:
  "est_status (frame (10 * 10 ^ 9) SUCCESS (translation_x NaN) (translation_x (Num 1)))
     = SUCCESS
   \<and> has_nan (eigenToTF (est_pose
         (frame (10 * 10 ^ 9) SUCCESS (translation_x NaN) (translation_x (Num 1)))))
   \<and> depth_source (tracking (Num 1) (5 * 10 ^ 9))
   \<and> (\<exists>s' out.
         process identity_env
           (frame (10 * 10 ^ 9) SUCCESS (translation_x NaN) (translation_x (Num 1)))
           (tracking (Num 1) (5 * 10 ^ 9)) = Inr (s', out)
         \<and> initial_base_to_sensor s' =
             tf_mul (base_transform (tracking (Num 1) (5 * 10 ^ 9))) identity_tf
         \<and> \<not> visual_odometer s' \<and> reset_odometer s'
         \<and> base_transform s' = base_transform (tracking (Num 1) (5 * 10 ^ 9))
         \<and> last_time s' = last_time (tracking (Num 1) (5 * 10 ^ 9))
         \<and> tf_broadcasts out = [] \<and> odom_msgs out = []
         \<and> pose_msgs out = [] \<and> info_msgs out = []
         \<and> ensure_odometer identity_env
               (frame (11 * 10 ^ 9) SUCCESS (translation_x (Num 1)) (translation_x (Num 1)))
               s' =
             (True, s'\<lparr>visual_odometer := True, reset_odometer := False\<rparr>, []))"
proof -
  let ?f = "frame (10 * 10 ^ 9) SUCCESS (translation_x NaN) (translation_x (Num 1))"
  let ?s = "tracking (Num 1) (5 * 10 ^ 9)"
  have h1: "est_status ?f = SUCCESS" by (simp add: frame_def)
  have h2: "has_nan (eigenToTF (est_pose ?f))"
    by (simp add: frame_def no_nan_translation_x)
  have h3: "depth_source ?s" by (simp add: tracking_def)
  have h4: "img_step ?f = img_width ?f" by (simp add: frame_def)
  have h5: "ensure_odometer identity_env ?f ?s = (False, ?s, [])"
    by (simp add: ensure_tracking tracking_def)
  have h6: "getBaseToSensorTransform identity_env (img_stamp ?f) (img_frame_id ?f) ?s =
              (identity_tf, ?s, [])"
    by (rule lookup_identity_env)
  show ?thesis
    by (intro conjI h1 h2 h3 nan_pose_reanchors_and_suppresses[OF h1 h2 h3 h4 h5 h6])
qed

text \<open>
  C2 speaks of non-finite components. The check tests for NaN only, so a component that
  is infinite does not trigger it. With
  the sensor at plus infinity along X the frame is published as usual, the estimator
  stays and no reset is flagged.
\<close>

theorem infinite_pose_is_not_caught:
  "est_status (frame (10 * 10 ^ 9) SUCCESS (translation_x PInf) (translation_x (Num 1)))
     = SUCCESS
   \<and> \<not> isfinite (getX (getOrigin (eigenToTF (est_pose
           (frame (10 * 10 ^ 9) SUCCESS (translation_x PInf) (translation_x (Num 1)))))))
   \<and> map odom_stamp (odom_msgs (outputs (process identity_env
         (frame (10 * 10 ^ 9) SUCCESS (translation_x PInf) (translation_x (Num 1)))
         (tracking (Num 1) (5 * 10 ^ 9))))) = [10 * 10 ^ 9]
   \<and> map_option visual_odometer (state_after (process identity_env
         (frame (10 * 10 ^ 9) SUCCESS (translation_x PInf) (translation_x (Num 1)))
         (tracking (Num 1) (5 * 10 ^ 9)))) = Some True
   \<and> map_option reset_odometer (state_after (process identity_env
         (frame (10 * 10 ^ 9) SUCCESS (translation_x PInf) (translation_x (Num 1)))
         (tracking (Num 1) (5 * 10 ^ 9)))) = Some False"
proof -
  let ?f = "frame (10 * 10 ^ 9) SUCCESS (translation_x PInf) (translation_x (Num 1))"
  have h1: "est_status ?f = SUCCESS" by (simp add: frame_def)
  have h2: "\<not> isfinite (getX (getOrigin (eigenToTF (est_pose ?f))))"
    by (simp add: frame_def eigenToTF_translation_x)
  note p = process_tracking_identity[where v = PInf and k = "Num 1"
             and ?t0.0 = "5 * 10 ^ 9" and t = "10 * 10 ^ 9" and m = "translation_x (Num 1)",
             OF _ refl refl refl]
  have h3: "map odom_stamp (odom_msgs (outputs (process identity_env ?f
              (tracking (Num 1) (5 * 10 ^ 9))))) = [10 * 10 ^ 9]"
    by (subst p) (simp_all add: outputs_def odom_msgs_simps fill_twist_def Let_def
          new_odom_msg_def frame_def)
  have h4: "map_option visual_odometer (state_after (process identity_env ?f
              (tracking (Num 1) (5 * 10 ^ 9)))) = Some True"
    by (subst p) (simp_all add: state_after_def tracking_def)
  have h5: "map_option reset_odometer (state_after (process identity_env ?f
              (tracking (Num 1) (5 * 10 ^ 9)))) = Some False"
    by (subst p) (simp_all add: state_after_def tracking_def)
  show ?thesis
    by (intro conjI h1 h2 h3 h4 h5)
qed

text \<open>
  C1. On a success frame \<^verbatim>\<open>process\<close> returns. When the sensor pose has a NaN among its
  seven components no pose goes out, in no odometry message, pose message or broadcast,
  and the stored body pose stays; otherwise each of them carries the new stored body
  pose. A NaN in any of the estimator's three translation or four quaternion numbers is
  such a NaN, so it never reaches an output.
\<close>

theorem nan_pose_is_never_published:
  assumes "est_status f = SUCCESS" and "depth_source s" and "img_step f = img_width f"
  shows "\<exists>s' out. process env f s = Inr (s', out)
           \<and> (if has_nan (eigenToTF (est_pose f))
               then published_poses out = [] \<and> base_transform s' = base_transform s
               else published_poses out =
                      replicate (if publish_tf s then 3 else 2)
                        (poseTFToMsg (base_transform s')))
           \<and> (isnan (getX (translation (est_pose f)))
                \<or> isnan (getY (translation (est_pose f)))
                \<or> isnan (getZ (translation (est_pose f)))
                \<or> isnan (qx (rotation (est_pose f))) \<or> isnan (qy (rotation (est_pose f)))
                \<or> isnan (qz (rotation (est_pose f))) \<or> isnan (qw (rotation (est_pose f)))
               \<longrightarrow> published_poses out = [])"
proof -
  obtain first_run s1 out0 where e: "ensure_odometer env f s = (first_run, s1, out0)"
    by (cases "ensure_odometer env f s") auto
  obtain cur s2 outg where
    g: "getBaseToSensorTransform env (img_stamp f) (img_frame_id f) s1 = (cur, s2, outg)"
    by (cases "getBaseToSensorTransform env (img_stamp f) (img_frame_id f) s1") auto
  note quiet = projections_append ensure_quiet[OF e] features_quiet lookup_keeps(2-5)[OF g]
  have keep: "base_transform s2 = base_transform s"
    using lookup_fields(1)[OF g] ensure_fields(1)[OF e] by simp
  show ?thesis
  proof (cases "has_nan (eigenToTF (est_pose f))")
    case True
    show ?thesis
      unfolding process_nan[OF e assms(2,3,1) g True]
      using True
      by (simp add: published_poses_def quiet projection_simps odom_msgs_simps keep)
  next
    case False
    then have raw: "\<not> (isnan (getX (translation (est_pose f)))
                \<or> isnan (getY (translation (est_pose f)))
                \<or> isnan (getZ (translation (est_pose f)))
                \<or> isnan (qx (rotation (est_pose f))) \<or> isnan (qy (rotation (est_pose f)))
                \<or> isnan (qz (rotation (est_pose f))) \<or> isnan (qw (rotation (est_pose f))))"
      using raw_nan_detected[of "est_pose f"] by blast
    show ?thesis
      unfolding process_valid[OF e assms(2,3,1) g False refl refl refl]
      using False raw
      by (simp add: published_poses_def quiet projection_simps odom_msgs_simps
            fill_twist_fields(2) numeral_3_eq_3 numeral_2_eq_2)
  qed
qed

theorem never_published_witness:
  "est_status (frame (10 * 10 ^ 9) SUCCESS (translation_x NaN) (translation_x (Num 1)))
     = SUCCESS
   \<and> depth_source (tracking (Num 1) (5 * 10 ^ 9))
   \<and> has_nan (eigenToTF (est_pose
         (frame (10 * 10 ^ 9) SUCCESS (translation_x NaN) (translation_x (Num 1)))))
   \<and> (\<exists>s' out.
         process identity_env
           (frame (10 * 10 ^ 9) SUCCESS (translation_x NaN) (translation_x (Num 1)))
           (tracking (Num 1) (5 * 10 ^ 9)) = Inr (s', out)
         \<and> published_poses out = []
         \<and> base_transform s' = base_transform (tracking (Num 1) (5 * 10 ^ 9)))
   \<and> (\<exists>s' out.
         process identity_env
           (frame (10 * 10 ^ 9) SUCCESS (translation_x (Num 1)) (translation_x (Num 1)))
           (tracking (Num 1) (5 * 10 ^ 9)) = Inr (s', out)
         \<and> published_poses out = replicate 3 (poseTFToMsg (base_transform s')))"
proof -
  let ?f = "frame (10 * 10 ^ 9) SUCCESS (translation_x NaN) (translation_x (Num 1))"
  let ?g = "frame (10 * 10 ^ 9) SUCCESS (translation_x (Num 1)) (translation_x (Num 1))"
  let ?s = "tracking (Num 1) (5 * 10 ^ 9)"
  have h1: "est_status ?f = SUCCESS" by (simp add: frame_def)
  have h2: "depth_source ?s" by (simp add: tracking_def)
  have h3: "img_step ?f = img_width ?f" by (simp add: frame_def)
  have h4: "has_nan (eigenToTF (est_pose ?f))"
    by (simp add: frame_def no_nan_translation_x)
  have g1: "est_status ?g = SUCCESS" by (simp add: frame_def)
  have g3: "img_step ?g = img_width ?g" by (simp add: frame_def)
  have g4: "\<not> has_nan (eigenToTF (est_pose ?g))"
    by (simp add: frame_def no_nan_translation_x)
  have pt: "publish_tf ?s" by (simp add: tracking_def)
  from nan_pose_is_never_published[OF h1 h2 h3, of identity_env] h4
  have a: "\<exists>s' out. process identity_env ?f ?s = Inr (s', out)
         \<and> published_poses out = [] \<and> base_transform s' = base_transform ?s"
    by auto
  from nan_pose_is_never_published[OF g1 h2 g3, of identity_env] g4 pt
  have b: "\<exists>s' out. process identity_env ?g ?s = Inr (s', out)
         \<and> published_poses out = replicate 3 (poseTFToMsg (base_transform s'))"
    by auto
  show ?thesis
    by (intro conjI h1 h2 h4 a b)
qed

text \<open>
  C1 asks for a finite published pose, which does not always hold. A sensor pose at plus infinity along X has
  no NaN, so it is integrated and published: the position that goes out is infinite
  along X and, from zero times infinity, NaN along Y and Z.
\<close>

theorem infinite_pose_is_published:
  "est_status (frame (10 * 10 ^ 9) SUCCESS (translation_x PInf) (translation_x (Num 1)))
     = SUCCESS
   \<and> published_poses (outputs (process identity_env
         (frame (10 * 10 ^ 9) SUCCESS (translation_x PInf) (translation_x (Num 1)))
         (tracking (Num 1) (5 * 10 ^ 9))))
     = [\<lparr>position = Vector3 PInf NaN NaN, orientation = identity_q\<rparr>,
        \<lparr>position = Vector3 PInf NaN NaN, orientation = identity_q\<rparr>,
        \<lparr>position = Vector3 PInf NaN NaN, orientation = identity_q\<rparr>]
   \<and> \<not> pose_finite \<lparr>position = Vector3 PInf NaN NaN, orientation = identity_q\<rparr>"
proof -
  let ?f = "frame (10 * 10 ^ 9) SUCCESS (translation_x PInf) (translation_x (Num 1))"
  have h1: "est_status ?f = SUCCESS" by (simp add: frame_def)
  note p = process_tracking_identity[where v = PInf and k = "Num 1"
             and ?t0.0 = "5 * 10 ^ 9" and t = "10 * 10 ^ 9" and m = "translation_x (Num 1)",
             OF _ refl refl refl]
  have h2: "published_poses (outputs (process identity_env ?f (tracking (Num 1) (5 * 10 ^ 9))))
     = [\<lparr>position = Vector3 PInf NaN NaN, orientation = identity_q\<rparr>,
        \<lparr>position = Vector3 PInf NaN NaN, orientation = identity_q\<rparr>,
        \<lparr>position = Vector3 PInf NaN NaN, orientation = identity_q\<rparr>]"
    by (subst p)
       (simp_all add: outputs_def published_poses_def projection_simps odom_msgs_simps
          fill_twist_fields(2) integrate_inf poseTFToMsg_translation new_pose_msg_def)
  have h3: "\<not> pose_finite \<lparr>position = Vector3 PInf NaN NaN, orientation = identity_q\<rparr>"
    by (simp add: pose_finite_def)
  show ?thesis
    by (intro conjI h1 h2 h3)
qed

end
